theory Spec2Isabelle
  imports Complex_Main "HOL-Library.Word"
begin

section \<open>Data model (WaterRejectionTouch.h)\<close>

text \<open>
  Fixed-width fields are words of the declared width. \<open>int16_t\<close> fields are stored as
  16-bit words and read with \<open>sint\<close>; unsigned fields are read with \<open>uint\<close>/\<open>unat\<close>.
  C++ promotes every operand narrower than \<open>int\<close> to \<open>int\<close> before arithmetic and
  comparison; with a 32-bit \<open>int\<close> none of the promoted expressions below can overflow
  (the operands are 8- or 16-bit), so promoted arithmetic is done on \<open>int\<close>. Arithmetic
  on \<open>uint32_t\<close> wraps and is done on 32-bit words.
\<close>

type_synonym u8 = "8 word"
type_synonym u16 = "16 word"
type_synonym i16 = "16 word"
type_synonym u32 = "32 word"

text \<open>\<open>struct TouchPoint\<close>; the fields \<open>x\<close> and \<open>y\<close> are named \<open>tp_x\<close> and \<open>tp_y\<close>.\<close>

record TouchPoint =
  tp_x :: i16
  tp_y :: i16
  timestamp :: u32
  pressure :: u8
  area :: u16
  valid :: bool

record WaterRejectionConfig =
  maxTouchArea :: u16
  minMovement :: u16
  maxStaticTime :: u16
  maxSimultaneousTouches :: u8
  touchTimeout :: u16
  gestureTimeout :: u16
  requireGesture :: bool
  edgeSwipeThreshold :: u16
  swipeMinDistance :: u16
  debounceTime :: u16
  pressureThreshold :: u16

record TouchZone =
  active :: bool
  activationTime :: u32
  touchCount :: u8
  lastTouchTime :: u32

datatype GestureState = GESTURE_IDLE | GESTURE_WAITING | GESTURE_ACTIVE

datatype ScreenType = SCREEN_CAPACITIVE | SCREEN_RESISTIVE

text \<open>
  The private state of \<open>class WaterRejectionTouch\<close>. The arrays \<open>touchHistory\<close>
  (\<open>HISTORY_SIZE\<close> entries), \<open>zones\<close> (\<open>ZONE_GRID_SIZE\<close> rows of \<open>ZONE_GRID_SIZE\<close>
  cells) and \<open>multiTouchPoints\<close> (5 entries) are lists of that length.
\<close>

record WaterRejectionTouch =
  touchHistory :: "TouchPoint list"
  historyIndex :: u8
  zones :: "TouchZone list list"
  screenWidth :: u16
  screenHeight :: u16
  config :: WaterRejectionConfig
  gestureState :: GestureState
  gestureStateTimeout :: u32
  gestureStartPoint :: TouchPoint
  currentTouchCount :: u8
  multiTouchPoints :: "TouchPoint list"
  waterDropletsRejected :: u32
  validTouches :: u32
  screenType :: ScreenType
  lastValidTouchTime :: u32
  lastValidTouch :: TouchPoint

definition ZONE_GRID_SIZE :: nat where
  "ZONE_GRID_SIZE = 20"

definition HISTORY_SIZE :: nat where
  "HISTORY_SIZE = 20"

text \<open>The all-zero values that \<open>memset\<close> writes.\<close>

definition zero_TouchPoint :: TouchPoint where
  "zero_TouchPoint =
     \<lparr>tp_x = 0, tp_y = 0, timestamp = 0, pressure = 0, area = 0, valid = False\<rparr>"

definition zero_TouchZone :: TouchZone where
  "zero_TouchZone = \<lparr>active = False, activationTime = 0, touchCount = 0, lastTouchTime = 0\<rparr>"

text \<open>
  The member initialisers of \<open>struct WaterRejectionConfig\<close>. The header selects one of
  the two blocks with the macro \<open>RESISTIVE_SCREEN\<close>; the macro is the parameter here.
\<close>

definition default_config :: "ScreenType \<Rightarrow> WaterRejectionConfig" where
  "default_config st =
     (case st of
        SCREEN_RESISTIVE \<Rightarrow>
          \<lparr>maxTouchArea = 80, minMovement = 10, maxStaticTime = 800,
           maxSimultaneousTouches = 1, touchTimeout = 1500, gestureTimeout = 700,
           requireGesture = False, edgeSwipeThreshold = 50, swipeMinDistance = 150,
           debounceTime = 50, pressureThreshold = 300\<rparr>
      | SCREEN_CAPACITIVE \<Rightarrow>
          \<lparr>maxTouchArea = 50, minMovement = 5, maxStaticTime = 500,
           maxSimultaneousTouches = 2, touchTimeout = 1000, gestureTimeout = 500,
           requireGesture = False, edgeSwipeThreshold = 50, swipeMinDistance = 150,
           debounceTime = 0, pressureThreshold = 0\<rparr>)"

text \<open>
  The constructor (lines 12-30). \<open>gestureStartPoint\<close> is left uninitialised by the
  source and is read only in state \<open>GESTURE_WAITING\<close>, after it has been assigned; it is
  zero here.
\<close>

definition new_WaterRejectionTouch :: "u16 \<Rightarrow> u16 \<Rightarrow> ScreenType \<Rightarrow> WaterRejectionTouch" where
  "new_WaterRejectionTouch width height st =
     \<lparr>touchHistory = replicate HISTORY_SIZE zero_TouchPoint,
      historyIndex = 0,
      zones = replicate ZONE_GRID_SIZE (replicate ZONE_GRID_SIZE zero_TouchZone),
      screenWidth = width,
      screenHeight = height,
      config = default_config st,
      gestureState = GESTURE_IDLE,
      gestureStateTimeout = 0,
      gestureStartPoint = zero_TouchPoint,
      currentTouchCount = 0,
      multiTouchPoints = replicate 5 zero_TouchPoint,
      waterDropletsRejected = 0,
      validTouches = 0,
      screenType = st,
      lastValidTouchTime = 0,
      lastValidTouch = zero_TouchPoint\<rparr>"

text \<open>\<open>begin(const WaterRejectionConfig&)\<close> (lines 39-49).\<close>

definition begin_config :: "WaterRejectionTouch \<Rightarrow> WaterRejectionConfig \<Rightarrow> WaterRejectionTouch" where
  "begin_config s customConfig =
     s\<lparr>config := customConfig,
       touchHistory := replicate HISTORY_SIZE zero_TouchPoint,
       zones := replicate ZONE_GRID_SIZE (replicate ZONE_GRID_SIZE zero_TouchZone),
       historyIndex := 0,
       gestureState := GESTURE_IDLE,
       waterDropletsRejected := 0,
       validTouches := 0\<rparr>"

section \<open>Helpers for C++ arithmetic\<close>

text \<open>Integer division of C++ truncates towards zero.\<close>

definition c_div :: "int \<Rightarrow> int \<Rightarrow> int" where
  "c_div a b = (if (a < 0) = (b < 0) then \<bar>a\<bar> div \<bar>b\<bar> else - (\<bar>a\<bar> div \<bar>b\<bar>))"

text \<open>
  \<open>int16_t d = abs(a - b)\<close>: the difference and its absolute value are computed on
  \<open>int\<close>, the result is narrowed to 16 bits.
\<close>

definition abs_i16 :: "int \<Rightarrow> i16" where
  "abs_i16 d = word_of_int \<bar>d\<bar>"

text \<open>
  \<open>uint8_t zone = (coord * ZONE_GRID_SIZE) / extent\<close> (lines 175-176 and 306-307).
  The division by an extent of zero is undefined in C++; \<open>processTouch\<close> rejects every
  sample before this point when the extent is zero.
\<close>

definition zoneIndex :: "i16 \<Rightarrow> u16 \<Rightarrow> u8" where
  "zoneIndex coord extent = word_of_int (c_div (sint coord * int ZONE_GRID_SIZE) (uint extent))"

definition zoneAt :: "WaterRejectionTouch \<Rightarrow> nat \<Rightarrow> nat \<Rightarrow> TouchZone" where
  "zoneAt s i j = zones s ! i ! j"

definition setZone :: "WaterRejectionTouch \<Rightarrow> nat \<Rightarrow> nat \<Rightarrow> TouchZone \<Rightarrow> WaterRejectionTouch" where
  "setZone s i j z = s\<lparr>zones := (zones s)[i := (zones s ! i)[j := z]]\<rparr>"

section \<open>Single-sample pipeline (WaterRejectionTouch.cpp)\<close>

subsection \<open>Gesture gate: \<open>validateGesture\<close> (lines 344-382)\<close>

definition validateGesture :: "WaterRejectionTouch \<Rightarrow> TouchPoint \<Rightarrow> bool \<times> WaterRejectionTouch" where
  "validateGesture s touch =
     (let currentTime = timestamp touch in
      case gestureState s of
        GESTURE_IDLE \<Rightarrow>
          (if sint (tp_x touch) < uint (edgeSwipeThreshold (config s))
           then (False, s\<lparr>gestureState := GESTURE_WAITING,
                           gestureStateTimeout := currentTime + ucast (gestureTimeout (config s)),
                           gestureStartPoint := touch\<rparr>)
           else (False, s))
      | GESTURE_WAITING \<Rightarrow>
          (if currentTime > gestureStateTimeout s
           then (False, s\<lparr>gestureState := GESTURE_IDLE\<rparr>)
           else if sint (tp_x touch) - sint (tp_x (gestureStartPoint s))
                     > uint (swipeMinDistance (config s))
           then (True, s\<lparr>gestureState := GESTURE_ACTIVE,
                          gestureStateTimeout := currentTime + 30000\<rparr>)
           else (False, s))
      | GESTURE_ACTIVE \<Rightarrow>
          (if currentTime > gestureStateTimeout s
           then (False, s\<lparr>gestureState := GESTURE_IDLE\<rparr>)
           else (True, s)))"

subsection \<open>Zone activity: \<open>checkZoneActivity\<close> (lines 186-221)\<close>

text \<open>
  The pairs \<open>(dx, dy)\<close> in the order of the two nested loops
  \<open>for dx = -1..1\<close>, \<open>for dy = -1..1\<close>.
\<close>

definition neighbourOffsets :: "(int \<times> int) list" where
  "neighbourOffsets = concat (map (\<lambda>dx. map (\<lambda>dy. (dx, dy)) [-1, 0, 1]) [-1, 0, 1])"

text \<open>
  The body of the inner loop: \<open>nx\<close> and \<open>ny\<close> are \<open>uint8_t\<close>, so \<open>zoneX + dx\<close> wraps
  to 255 below zero and fails the range test.
\<close>

definition neighbourCounts :: "WaterRejectionTouch \<Rightarrow> u32 \<Rightarrow> u8 \<Rightarrow> u8 \<Rightarrow> int \<times> int \<Rightarrow> bool" where
  "neighbourCounts s currentTime zoneX zoneY d =
     (let nx = (word_of_int (uint zoneX + fst d) :: u8);
          ny = (word_of_int (uint zoneY + snd d) :: u8)
      in unat nx < ZONE_GRID_SIZE \<and> unat ny < ZONE_GRID_SIZE \<and>
         active (zoneAt s (unat nx) (unat ny)) \<and>
         unat (currentTime - activationTime (zoneAt s (unat nx) (unat ny)))
           < unat (touchTimeout (config s)))"

text \<open>\<open>currentTime\<close> is the value that \<open>millis()\<close> returns inside the call.\<close>

definition checkZoneActivity :: "WaterRejectionTouch \<Rightarrow> u32 \<Rightarrow> u8 \<Rightarrow> u8 \<Rightarrow> bool \<times> WaterRejectionTouch" where
  "checkZoneActivity s currentTime zoneX zoneY =
     (let z = zoneAt s (unat zoneX) (unat zoneY);
          rapid = (active z \<and> unat (currentTime - activationTime z) < 100);
          s1 = (if rapid
                then setZone s (unat zoneX) (unat zoneY) (z\<lparr>touchCount := touchCount z + 1\<rparr>)
                else s)
      in if rapid \<and> unat (touchCount z + 1) > 3 then (True, s1)
         else
           (let activeNeighbors =
                  foldl (\<lambda>(c :: u8) d. if neighbourCounts s1 currentTime zoneX zoneY d
                                         then c + 1 else c) 0 neighbourOffsets
            in (unat activeNeighbors > 4, s1)))"

subsection \<open>\<open>isWaterPattern\<close> (lines 168-183)\<close>

definition isWaterPattern :: "WaterRejectionTouch \<Rightarrow> u32 \<Rightarrow> TouchPoint \<Rightarrow> bool \<times> WaterRejectionTouch" where
  "isWaterPattern s currentTime touch =
     (if uint (area touch) > uint (maxTouchArea (config s)) then (True, s)
      else
        (let zoneX = zoneIndex (tp_x touch) (screenWidth s);
             zoneY = zoneIndex (tp_y touch) (screenHeight s)
         in if unat zoneX \<ge> ZONE_GRID_SIZE \<or> unat zoneY \<ge> ZONE_GRID_SIZE then (False, s)
            else checkZoneActivity s currentTime zoneX zoneY))"

subsection \<open>\<open>isStaticTouch\<close> (lines 283-302)\<close>

text \<open>The condition under which the loop body increments \<open>staticCount\<close>.\<close>

definition staticMatch :: "WaterRejectionTouch \<Rightarrow> TouchPoint \<Rightarrow> TouchPoint \<Rightarrow> bool" where
  "staticMatch s touch h =
     (valid h \<and>
      unat (timestamp touch - timestamp h) < unat (maxStaticTime (config s)) \<and>
      sint (abs_i16 (sint (tp_x h) - sint (tp_x touch))) < uint (minMovement (config s)) \<and>
      sint (abs_i16 (sint (tp_y h) - sint (tp_y touch))) < uint (minMovement (config s)))"

definition isStaticTouch :: "WaterRejectionTouch \<Rightarrow> TouchPoint \<Rightarrow> bool" where
  "isStaticTouch s touch =
     (let staticCount =
            foldl (\<lambda>(c :: u8) h. if staticMatch s touch h then c + 1 else c) 0 (touchHistory s)
      in unat staticCount > 5)"

subsection \<open>\<open>updateZones\<close> (lines 305-320) and \<open>updateHistory\<close> (lines 323-326)\<close>

definition updateZones :: "WaterRejectionTouch \<Rightarrow> TouchPoint \<Rightarrow> WaterRejectionTouch" where
  "updateZones s touch =
     (let zoneX = zoneIndex (tp_x touch) (screenWidth s);
          zoneY = zoneIndex (tp_y touch) (screenHeight s)
      in if unat zoneX < ZONE_GRID_SIZE \<and> unat zoneY < ZONE_GRID_SIZE then
           (let z = zoneAt s (unat zoneX) (unat zoneY);
                z1 = z\<lparr>active := True, activationTime := timestamp touch,
                       lastTouchTime := timestamp touch\<rparr>;
                z2 = (if unat (timestamp touch - activationTime z1) < 100
                      then z1\<lparr>touchCount := touchCount z1 + 1\<rparr>
                      else z1\<lparr>touchCount := 1\<rparr>)
            in setZone s (unat zoneX) (unat zoneY) z2)
         else s)"

definition updateHistory :: "WaterRejectionTouch \<Rightarrow> TouchPoint \<Rightarrow> WaterRejectionTouch" where
  "updateHistory s touch =
     s\<lparr>touchHistory := (touchHistory s)[unat (historyIndex s) := touch],
       historyIndex := word_of_int ((uint (historyIndex s) + 1) mod int HISTORY_SIZE)\<rparr>"

subsection \<open>\<open>processTouch(const TouchPoint&)\<close> (lines 76-133)\<close>

text \<open>
  The result is the returned flag and the engine after the call. \<open>now\<close> is the value
  \<open>millis()\<close> returns when \<open>checkZoneActivity\<close> reads the clock; the sample carries its
  own \<open>timestamp\<close>.
\<close>

definition processTouch :: "WaterRejectionTouch \<Rightarrow> u32 \<Rightarrow> TouchPoint \<Rightarrow> bool \<times> WaterRejectionTouch" where
  "processTouch s now touch =
     (if sint (tp_x touch) < 0 \<or> sint (tp_x touch) \<ge> uint (screenWidth s) \<or>
         sint (tp_y touch) < 0 \<or> sint (tp_y touch) \<ge> uint (screenHeight s)
      then (False, s)
      else if screenType s = SCREEN_RESISTIVE \<and>
              uint (pressureThreshold (config s)) > 0 \<and>
              uint (pressure touch) < uint (pressureThreshold (config s))
      then (False, s)
      else if screenType s = SCREEN_RESISTIVE \<and>
              uint (debounceTime (config s)) > 0 \<and>
              unat (timestamp touch - lastValidTouchTime s) < unat (debounceTime (config s))
      then
        (let dx = abs_i16 (sint (tp_x touch) - sint (tp_x (lastValidTouch s)));
             dy = abs_i16 (sint (tp_y touch) - sint (tp_y (lastValidTouch s)))
         in if sint dx < uint (minMovement (config s)) \<and> sint dy < uint (minMovement (config s))
            then (True, s)
            else (False, s))
      else
        (let (gateOk, s1) =
               (if requireGesture (config s) then validateGesture s touch else (True, s))
         in if \<not> gateOk then (False, s1)
            else
              (let (water, s2) = isWaterPattern s1 now touch
               in if water
                  then (False, s2\<lparr>waterDropletsRejected := waterDropletsRejected s2 + 1\<rparr>)
                  else if isStaticTouch s2 touch
                  then (False, s2\<lparr>waterDropletsRejected := waterDropletsRejected s2 + 1\<rparr>)
                  else
                    (let s3 = updateHistory s2 touch;
                         s4 = updateZones s3 touch
                     in (True, s4\<lparr>lastValidTouchTime := timestamp touch,
                                   lastValidTouch := touch,
                                   validTouches := validTouches s4 + 1\<rparr>)))))"

text \<open>
  The two convenience overloads (lines 52-74). Both build the sample from \<open>millis()\<close>;
  \<open>now\<close> is the clock value of the call.
\<close>

definition processTouch_xy :: "WaterRejectionTouch \<Rightarrow> u32 \<Rightarrow> i16 \<Rightarrow> i16 \<Rightarrow> bool \<times> WaterRejectionTouch" where
  "processTouch_xy s now x y =
     processTouch s now
       \<lparr>tp_x = x, tp_y = y, timestamp = now, pressure = 128, area = 10, valid = True\<rparr>"

definition processTouch_xyp :: "WaterRejectionTouch \<Rightarrow> u32 \<Rightarrow> i16 \<Rightarrow> i16 \<Rightarrow> u8 \<Rightarrow> bool \<times> WaterRejectionTouch" where
  "processTouch_xyp s now x y p =
     processTouch s now
       \<lparr>tp_x = x, tp_y = y, timestamp = now, pressure = p,
        area = word_of_int (c_div (uint p) 5), valid = True\<rparr>"

section \<open>Periodic sweep, configuration and calibration\<close>

text \<open>\<open>clearOldZones\<close> (lines 329-341); \<open>currentTime\<close> is \<open>millis()\<close>.\<close>

definition decayZone :: "WaterRejectionTouch \<Rightarrow> u32 \<Rightarrow> TouchZone \<Rightarrow> TouchZone" where
  "decayZone s currentTime z =
     (if active z \<and> unat (currentTime - lastTouchTime z) > unat (touchTimeout (config s))
      then z\<lparr>active := False, touchCount := 0\<rparr>
      else z)"

definition clearOldZones :: "WaterRejectionTouch \<Rightarrow> u32 \<Rightarrow> WaterRejectionTouch" where
  "clearOldZones s currentTime = s\<lparr>zones := map (map (decayZone s currentTime)) (zones s)\<rparr>"

text \<open>\<open>setConfig\<close> (lines 397-399) and \<open>enableGestureMode\<close> (lines 422-425).\<close>

definition setConfig :: "WaterRejectionTouch \<Rightarrow> WaterRejectionConfig \<Rightarrow> WaterRejectionTouch" where
  "setConfig s newConfig = s\<lparr>config := newConfig\<rparr>"

definition enableGestureMode :: "WaterRejectionTouch \<Rightarrow> WaterRejectionTouch" where
  "enableGestureMode s =
     s\<lparr>config := (config s)\<lparr>requireGesture := True\<rparr>, gestureState := GESTURE_IDLE\<rparr>"

text \<open>\<open>calibrateForEnvironment\<close> (lines 455-487).\<close>

definition calibrateForEnvironment :: "WaterRejectionTouch \<Rightarrow> bool \<Rightarrow> WaterRejectionTouch" where
  "calibrateForEnvironment s wetEnvironment =
     (if screenType s = SCREEN_RESISTIVE then
        (if wetEnvironment
         then s\<lparr>config := (config s)\<lparr>maxTouchArea := 60, maxStaticTime := 400,
                                       maxSimultaneousTouches := 1, requireGesture := True,
                                       pressureThreshold := 400\<rparr>\<rparr>
         else s\<lparr>config := (config s)\<lparr>maxTouchArea := 80, maxStaticTime := 800,
                                       maxSimultaneousTouches := 1, requireGesture := False,
                                       pressureThreshold := 300\<rparr>\<rparr>)
      else
        (if wetEnvironment
         then s\<lparr>config := (config s)\<lparr>maxTouchArea := 30, maxStaticTime := 300,
                                       maxSimultaneousTouches := 1, requireGesture := True\<rparr>\<rparr>
         else s\<lparr>config := (config s)\<lparr>maxTouchArea := 50, maxStaticTime := 500,
                                       maxSimultaneousTouches := 2, requireGesture := False\<rparr>\<rparr>))"

section \<open>Multi-touch batch test\<close>

text \<open>
  \<open>calculateTouchClusterDensity\<close> and \<open>checkMultiTouchPattern\<close> compute on \<open>float\<close>.
  They are modelled on the reals: every sum, product and quotient is the exact one, so
  rounding is not represented, and the three outcomes of IEEE arithmetic that the reals do
  not have are written out where they arise (see \<open>quotientExceeds\<close>).
\<close>

text \<open>
  The index pairs \<open>(i, j)\<close> of the nested loops of lines 270-271:
  \<open>i < currentTouchCount - 1 && i < 4\<close>, \<open>j = i + 1; j < currentTouchCount && j < 5\<close>.
\<close>

definition pairIndices :: "nat \<Rightarrow> (nat \<times> nat) list" where
  "pairIndices count =
     concat (map (\<lambda>i. map (\<lambda>j. (i, j)) [i + 1 ..< min count 5]) [0 ..< min (count - 1) 4])"

definition pointDistance :: "TouchPoint \<Rightarrow> TouchPoint \<Rightarrow> real" where
  "pointDistance p q =
     (let dx = real_of_int (sint (tp_x p) - sint (tp_x q));
          dy = real_of_int (sint (tp_y p) - sint (tp_y q))
      in sqrt (dx * dx + dy * dy))"

text \<open>\<open>calculateTouchClusterDensity\<close> (lines 262-280).\<close>

definition calculateTouchClusterDensity :: "WaterRejectionTouch \<Rightarrow> real" where
  "calculateTouchClusterDensity s =
     (if unat (currentTouchCount s) < 2 then 1000
      else
        (let ps = pairIndices (unat (currentTouchCount s));
             totalDistance =
               sum_list (map (\<lambda>(i, j). pointDistance (multiTouchPoints s ! i)
                                                       (multiTouchPoints s ! j)) ps);
             pairCount = length ps
         in if pairCount > 0 then totalDistance / real pairCount else 1000))"

text \<open>
  \<open>abs(num / sqrt(rad)) > bound\<close> as IEEE arithmetic decides it: the square root of a
  negative number is NaN and \<open>0 / 0\<close> is NaN, and every comparison with NaN is false; a
  nonzero numerator over zero is an infinity, whose magnitude exceeds every bound.
\<close>

definition quotientExceeds :: "real \<Rightarrow> real \<Rightarrow> real \<Rightarrow> bool" where
  "quotientExceeds num rad bound =
     (if rad < 0 then False
      else if rad = 0 then num \<noteq> 0
      else \<bar>num / sqrt rad\<bar> > bound)"

text \<open>
  \<open>checkMultiTouchPattern\<close> (lines 224-259). The sums run over the first
  \<open>min(currentTouchCount, 5)\<close> entries of \<open>multiTouchPoints\<close>; the products
  \<open>x * y\<close> and \<open>x * x\<close> are \<open>int\<close> products of promoted 16-bit values.
\<close>

definition checkMultiTouchPattern :: "WaterRejectionTouch \<Rightarrow> bool" where
  "checkMultiTouchPattern s =
     (let count = unat (currentTouchCount s) in
      if count < 2 then False
      else if calculateTouchClusterDensity s < 50 \<and> count > 2 then True
      else if count \<ge> 3 then
        (let pts = take (min count 5) (multiTouchPoints s);
             sumX = sum_list (map (\<lambda>p. real_of_int (sint (tp_x p))) pts);
             sumY = sum_list (map (\<lambda>p. real_of_int (sint (tp_y p))) pts);
             sumXY = sum_list (map (\<lambda>p. real_of_int (sint (tp_x p) * sint (tp_y p))) pts);
             sumX2 = sum_list (map (\<lambda>p. real_of_int (sint (tp_x p) * sint (tp_x p))) pts);
             n = real count
         in quotientExceeds (n * sumXY - sumX * sumY)
              ((n * sumX2 - sumX * sumX) * (n * sumY * sumY - sumY * sumY))
              (9 / 10))
      else False)"

text \<open>
  \<open>processMultiTouch\<close> (lines 136-165). \<open>touches\<close> is the caller's array, of at least
  \<open>count\<close> samples; \<open>copyTouches\<close> is the loop of lines 146-148, \<open>processEach\<close> the body
  of the loop of lines 158-162, and \<open>now i\<close> the value of \<open>millis()\<close> during the
  \<open>i\<close>-th single-sample call.
\<close>

definition copyTouches :: "WaterRejectionTouch \<Rightarrow> TouchPoint list \<Rightarrow> u8 \<Rightarrow> WaterRejectionTouch" where
  "copyTouches s touches count =
     s\<lparr>multiTouchPoints :=
         take (min (unat count) 5) touches @ drop (min (unat count) 5) (multiTouchPoints s)\<rparr>"

definition processEach :: "(nat \<Rightarrow> u32) \<Rightarrow> TouchPoint list \<Rightarrow> bool \<times> WaterRejectionTouch \<Rightarrow> nat \<Rightarrow> bool \<times> WaterRejectionTouch" where
  "processEach now touches acc i =
     (let (ok, s') = processTouch (snd acc) (now i) (touches ! i)
      in (fst acc \<or> ok, s'))"

definition processMultiTouch :: "WaterRejectionTouch \<Rightarrow> (nat \<Rightarrow> u32) \<Rightarrow> TouchPoint list \<Rightarrow> u8 \<Rightarrow> bool \<times> WaterRejectionTouch" where
  "processMultiTouch s now touches count =
     (let s1 = s\<lparr>currentTouchCount := count\<rparr> in
      if uint count > uint (maxSimultaneousTouches (config s1))
      then (False, s1\<lparr>waterDropletsRejected := waterDropletsRejected s1 + 1\<rparr>)
      else
        (let s2 = copyTouches s1 touches count in
         if checkMultiTouchPattern s2
         then (False, s2\<lparr>waterDropletsRejected := waterDropletsRejected s2 + 1\<rparr>)
         else foldl (processEach now touches) (False, s2) [0 ..< unat count]))"

section \<open>Rejection causes of the single-sample call\<close>

text \<open>
  The guards of \<open>processTouch\<close>, one predicate for each \<open>return\<close> that a claim names.
\<close>

definition outOfBounds :: "WaterRejectionTouch \<Rightarrow> TouchPoint \<Rightarrow> bool" where
  "outOfBounds s touch =
     (\<not> (0 \<le> sint (tp_x touch) \<and> sint (tp_x touch) < uint (screenWidth s)) \<or>
      \<not> (0 \<le> sint (tp_y touch) \<and> sint (tp_y touch) < uint (screenHeight s)))"

definition pressureTooLow :: "WaterRejectionTouch \<Rightarrow> TouchPoint \<Rightarrow> bool" where
  "pressureTooLow s touch =
     (screenType s = SCREEN_RESISTIVE \<and> pressureThreshold (config s) \<noteq> 0 \<and>
      uint (pressure touch) < uint (pressureThreshold (config s)))"

definition inDebounceWindow :: "WaterRejectionTouch \<Rightarrow> TouchPoint \<Rightarrow> bool" where
  "inDebounceWindow s touch =
     (screenType s = SCREEN_RESISTIVE \<and> debounceTime (config s) \<noteq> 0 \<and>
      unat (timestamp touch - lastValidTouchTime s) < unat (debounceTime (config s)))"

text \<open>Displacement from the debounce reference below \<open>minMovement\<close> in both axes.\<close>

definition nearLastValid :: "WaterRejectionTouch \<Rightarrow> TouchPoint \<Rightarrow> bool" where
  "nearLastValid s touch =
     (\<bar>sint (tp_x touch) - sint (tp_x (lastValidTouch s))\<bar> < uint (minMovement (config s)) \<and>
      \<bar>sint (tp_y touch) - sint (tp_y (lastValidTouch s))\<bar> < uint (minMovement (config s)))"

text \<open>The comparison the debounce branch makes, on the narrowed differences.\<close>

definition debounceSamePosition :: "WaterRejectionTouch \<Rightarrow> TouchPoint \<Rightarrow> bool" where
  "debounceSamePosition s touch =
     (sint (abs_i16 (sint (tp_x touch) - sint (tp_x (lastValidTouch s))))
        < uint (minMovement (config s)) \<and>
      sint (abs_i16 (sint (tp_y touch) - sint (tp_y (lastValidTouch s))))
        < uint (minMovement (config s)))"

text \<open>The gesture gate as \<open>processTouch\<close> consults it: only when \<open>requireGesture\<close> is set.\<close>

definition gateResult :: "WaterRejectionTouch \<Rightarrow> TouchPoint \<Rightarrow> bool \<times> WaterRejectionTouch" where
  "gateResult s touch =
     (if requireGesture (config s) then validateGesture s touch else (True, s))"

text \<open>The sample passes bounds, pressure and debounce checks and reaches the gate.\<close>

definition reachesGate :: "WaterRejectionTouch \<Rightarrow> TouchPoint \<Rightarrow> bool" where
  "reachesGate s touch =
     (\<not> outOfBounds s touch \<and> \<not> pressureTooLow s touch \<and> \<not> inDebounceWindow s touch)"

text \<open>
  The sample is rejected by a water-pattern test: it reaches the gate, the gate approves
  it, and the area or zone-activity test (\<open>isWaterPattern\<close>) or, after it, the
  static-touch test fires.
\<close>

definition waterRejected :: "WaterRejectionTouch \<Rightarrow> u32 \<Rightarrow> TouchPoint \<Rightarrow> bool" where
  "waterRejected s now touch =
     (reachesGate s touch \<and> fst (gateResult s touch) \<and>
      (fst (isWaterPattern (snd (gateResult s touch)) now touch) \<or>
       isStaticTouch (snd (isWaterPattern (snd (gateResult s touch)) now touch)) touch))"

section \<open>Scenarios\<close>

text \<open>A 320 by 240 capacitive engine as constructed, and one sample right of the screen.\<close>

definition engine0 :: WaterRejectionTouch where
  "engine0 = new_WaterRejectionTouch 320 240 SCREEN_CAPACITIVE"

definition touch_right_of_screen :: TouchPoint where
  "touch_right_of_screen =
     \<lparr>tp_x = 320, tp_y = 10, timestamp = 7, pressure = 128, area = 10, valid = True\<rparr>"

text \<open>An in-bounds sample whose area estimate, 51, is above the capacitive maximum of 50.\<close>

definition touch_large_area :: TouchPoint where
  "touch_large_area =
     \<lparr>tp_x = 100, tp_y = 100, timestamp = 7, pressure = 255, area = 51, valid = True\<rparr>"

text \<open>
  Gesture scenario: gesture mode is enabled on the fresh engine; a sample at \<open>x = 0\<close>
  at time 0 starts the swipe; \<open>gesture_waiting\<close> is the engine after it.
\<close>

definition gesture_idle :: WaterRejectionTouch where
  "gesture_idle = enableGestureMode engine0"

definition touch_edge :: TouchPoint where
  "touch_edge = \<lparr>tp_x = 0, tp_y = 100, timestamp = 0, pressure = 128, area = 10, valid = True\<rparr>"

definition gesture_waiting :: WaterRejectionTouch where
  "gesture_waiting = snd (validateGesture gesture_idle touch_edge)"

definition touch_at_150 :: TouchPoint where
  "touch_at_150 = \<lparr>tp_x = 150, tp_y = 100, timestamp = 100, pressure = 128, area = 10, valid = True\<rparr>"

definition touch_at_151 :: TouchPoint where
  "touch_at_151 = \<lparr>tp_x = 151, tp_y = 100, timestamp = 100, pressure = 128, area = 10, valid = True\<rparr>"

definition gesture_active :: WaterRejectionTouch where
  "gesture_active = snd (validateGesture gesture_waiting touch_at_151)"

definition touch_later :: TouchPoint where
  "touch_later = \<lparr>tp_x = 200, tp_y = 50, timestamp = 5000, pressure = 128, area = 10, valid = True\<rparr>"

text \<open>
  Calibration scenario: a resistive engine as constructed, and the capacitive engine after
  \<open>setConfig\<close> with \<open>minMovement\<close> overridden to 99.
\<close>

definition engine0_resistive :: WaterRejectionTouch where
  "engine0_resistive = new_WaterRejectionTouch 320 240 SCREEN_RESISTIVE"

definition engine0_override :: WaterRejectionTouch where
  "engine0_override = setConfig engine0 ((config engine0)\<lparr>minMovement := 99\<rparr>)"

text \<open>
  Debounce scenario: a resistive engine started with the resistive defaults and a
  pressure threshold of 200; a first sample at (100, 100) with pressure 250 at time 1000;
  then, 10 ms later, a light repeat at the same position, a firm repeat 3 pixels away, and
  a firm sample 100 pixels away.
\<close>

definition resistive_config :: WaterRejectionConfig where
  "resistive_config = (default_config SCREEN_RESISTIVE)\<lparr>pressureThreshold := 200\<rparr>"

definition resistive_engine :: WaterRejectionTouch where
  "resistive_engine = begin_config engine0_resistive resistive_config"

definition resistive_pressed :: WaterRejectionTouch where
  "resistive_pressed = snd (processTouch_xyp resistive_engine 1000 100 100 250)"

definition touch_repeat_light :: TouchPoint where
  "touch_repeat_light =
     \<lparr>tp_x = 100, tp_y = 100, timestamp = 1010, pressure = 100, area = 20, valid = True\<rparr>"

definition touch_repeat_far :: TouchPoint where
  "touch_repeat_far =
     \<lparr>tp_x = 200, tp_y = 100, timestamp = 1010, pressure = 250, area = 50, valid = True\<rparr>"

definition touch_repeat_firm :: TouchPoint where
  "touch_repeat_firm =
     \<lparr>tp_x = 103, tp_y = 98, timestamp = 1010, pressure = 250, area = 50, valid = True\<rparr>"

text \<open>The zone grid has \<open>ZONE_GRID_SIZE\<close> rows of \<open>ZONE_GRID_SIZE\<close> cells, as the array type says.\<close>

definition wfZones :: "WaterRejectionTouch \<Rightarrow> bool" where
  "wfZones s =
     (length (zones s) = ZONE_GRID_SIZE \<and> (\<forall>row \<in> set (zones s). length row = ZONE_GRID_SIZE))"

text \<open>
  Zone-counter scenario: the cell (6, 8), which holds the point (100, 100) on a 320 by 240
  screen, has counted 255 touches, the last one at time 51000; the next sample arrives at
  (100, 100) at time 51200.
\<close>

definition engine_cell_full :: WaterRejectionTouch where
  "engine_cell_full =
     setZone engine0 6 8
       \<lparr>active = True, activationTime = 51000, touchCount = 255, lastTouchTime = 51000\<rparr>"

definition touch_cell_full :: TouchPoint where
  "touch_cell_full =
     \<lparr>tp_x = 100, tp_y = 100, timestamp = 51200, pressure = 128, area = 10, valid = True\<rparr>"

text \<open>
  Tapping scenario: \<open>tapRun n\<close> is the fresh capacitive engine after \<open>n\<close> calls of
  \<open>processTouch(100, 100)\<close>, 600 ms apart, with no sweep in between. \<open>tapInv k\<close>
  describes the engine after \<open>k\<close> such calls: only cell (6, 8) is active, it was
  activated by the last call and has counted \<open>k\<close> touches in 8 bits, and every valid
  history entry carries the time of an earlier call.
\<close>

definition tap_at :: "nat \<Rightarrow> TouchPoint" where
  "tap_at k =
     \<lparr>tp_x = 100, tp_y = 100, timestamp = 600 * of_nat k, pressure = 128, area = 10,
      valid = True\<rparr>"

definition tapRun :: "nat \<Rightarrow> WaterRejectionTouch" where
  "tapRun n =
     foldl (\<lambda>s k. snd (processTouch_xy s (600 * of_nat k) 100 100)) engine0 [0 ..< n]"

definition tapInv :: "nat \<Rightarrow> WaterRejectionTouch \<Rightarrow> bool" where
  "tapInv k s =
     (screenWidth s = 320 \<and> screenHeight s = 240 \<and> screenType s = SCREEN_CAPACITIVE \<and>
      config s = default_config SCREEN_CAPACITIVE \<and>
      wfZones s \<and> length (touchHistory s) = HISTORY_SIZE \<and>
      (\<forall>h \<in> set (touchHistory s). valid h \<longrightarrow> (\<exists>j<k. timestamp h = 600 * of_nat j)) \<and>
      (\<forall>i j. i < ZONE_GRID_SIZE \<and> j < ZONE_GRID_SIZE \<and> (i \<noteq> 6 \<or> j \<noteq> 8) \<longrightarrow>
             \<not> active (zoneAt s i j)) \<and>
      (k = 0 \<longrightarrow> \<not> active (zoneAt s 6 8)) \<and>
      (0 < k \<longrightarrow> activationTime (zoneAt s 6 8) = 600 * of_nat (k - 1)) \<and>
      touchCount (zoneAt s 6 8) = of_nat k \<and>
      validTouches s = of_nat k)"

text \<open>
  A history entry that is valid, within \<open>maxStaticTime\<close> of the incoming sample, and
  displaced from it by less than \<open>minMovement\<close> in both axes.
\<close>

definition recentNear :: "WaterRejectionTouch \<Rightarrow> TouchPoint \<Rightarrow> TouchPoint \<Rightarrow> bool" where
  "recentNear s touch h =
     (valid h \<and>
      unat (timestamp touch - timestamp h) < unat (maxStaticTime (config s)) \<and>
      \<bar>sint (tp_x h) - sint (tp_x touch)\<bar> < uint (minMovement (config s)) \<and>
      \<bar>sint (tp_y h) - sint (tp_y touch)\<bar> < uint (minMovement (config s)))"

text \<open>
  Static-touch scenario: a capacitive engine started with the capacitive defaults and
  \<open>maxStaticTime = 800\<close>; \<open>pressRun n\<close> is the engine after \<open>n\<close> calls of
  \<open>processTouch(100, 100)\<close> at times 0, 100, 200, ...
\<close>

definition static_config :: WaterRejectionConfig where
  "static_config = (default_config SCREEN_CAPACITIVE)\<lparr>maxStaticTime := 800\<rparr>"

definition static_engine :: WaterRejectionTouch where
  "static_engine = begin_config engine0 static_config"

definition pressRun :: "nat \<Rightarrow> WaterRejectionTouch" where
  "pressRun n =
     foldl (\<lambda>s k. snd (processTouch_xy s (100 * of_nat k) 100 100)) static_engine [0 ..< n]"

definition press_at :: "u32 \<Rightarrow> TouchPoint" where
  "press_at t = \<lparr>tp_x = 100, tp_y = 100, timestamp = t, pressure = 128, area = 10, valid = True\<rparr>"

text \<open>
  The spread count as the claim words it: the active, recently activated cells among the
  8 neighbours of the sample's cell, the cell itself left out.
\<close>

definition eightNeighbourOffsets :: "(int \<times> int) list" where
  "eightNeighbourOffsets = filter (\<lambda>d. d \<noteq> (0, 0)) neighbourOffsets"

definition activeNeighbours8 :: "WaterRejectionTouch \<Rightarrow> u32 \<Rightarrow> u8 \<Rightarrow> u8 \<Rightarrow> nat" where
  "activeNeighbours8 s currentTime zoneX zoneY =
     length (filter (neighbourCounts s currentTime zoneX zoneY) eightNeighbourOffsets)"

text \<open>
  Spread scenario: on the fresh capacitive engine five calls \<open>processTouch(x, y)\<close>, 10 ms
  apart, touch the cell (6, 8) and its four edge neighbours (5, 8), (7, 8), (6, 7) and
  (6, 9); each entry is (time, x, y).
\<close>

definition spread_taps :: "(u32 \<times> i16 \<times> i16) list" where
  "spread_taps = [(0, 100, 100), (10, 88, 100), (20, 120, 100), (30, 100, 90), (40, 100, 112)]"

definition spread_engine :: WaterRejectionTouch where
  "spread_engine =
     foldl (\<lambda>s (t, x, y). snd (processTouch_xy s t x y)) engine0 spread_taps"

text \<open>
  The Pearson correlation coefficient of x versus y over a list of points, as the claim
  names it: covariance over the root of the product of the two variances, each scaled
  by \<open>n\<^sup>2\<close>.
\<close>

definition pearson :: "TouchPoint list \<Rightarrow> real" where
  "pearson pts =
     (let n = real (length pts);
          sumX = sum_list (map (\<lambda>p. real_of_int (sint (tp_x p))) pts);
          sumY = sum_list (map (\<lambda>p. real_of_int (sint (tp_y p))) pts);
          sumXY = sum_list (map (\<lambda>p. real_of_int (sint (tp_x p) * sint (tp_y p))) pts);
          sumX2 = sum_list (map (\<lambda>p. real_of_int (sint (tp_x p) * sint (tp_x p))) pts);
          sumY2 = sum_list (map (\<lambda>p. real_of_int (sint (tp_y p) * sint (tp_y p))) pts)
      in (n * sumXY - sumX * sumY)
           / sqrt ((n * sumX2 - sumX * sumX) * (n * sumY2 - sumY * sumY)))"

text \<open>
  Batch scenario: the capacitive engine after \<open>setConfig\<close> with
  \<open>maxSimultaneousTouches = 5\<close>; a batch of three samples on the diagonal, 141 units
  apart, and a batch of three samples on a vertical line, 100 units apart; the engines
  are those after \<open>processMultiTouch\<close> has stored the count and copied the batch.
  All samples of a batch are processed at clock value 0.
\<close>

definition multi_engine :: WaterRejectionTouch where
  "multi_engine = setConfig engine0 ((config engine0)\<lparr>maxSimultaneousTouches := 5\<rparr>)"

definition batch_point :: "i16 \<Rightarrow> i16 \<Rightarrow> TouchPoint" where
  "batch_point x y = \<lparr>tp_x = x, tp_y = y, timestamp = 0, pressure = 128, area = 10, valid = True\<rparr>"

definition diagonal_batch :: "TouchPoint list" where
  "diagonal_batch = [batch_point 0 0, batch_point 100 100, batch_point 200 200]"

definition vertical_batch :: "TouchPoint list" where
  "vertical_batch = [batch_point 100 0, batch_point 100 100, batch_point 100 200]"

definition diagonal_loaded :: WaterRejectionTouch where
  "diagonal_loaded = copyTouches (multi_engine\<lparr>currentTouchCount := 3\<rparr>) diagonal_batch 3"

definition vertical_loaded :: WaterRejectionTouch where
  "vertical_loaded = copyTouches (multi_engine\<lparr>currentTouchCount := 3\<rparr>) vertical_batch 3"

section \<open>The stages of \<open>processTouch\<close>\<close>

lemma uint_pos_iff: "(0 < uint (w :: 'a::len word)) = (w \<noteq> 0)"
  using uint_nonnegative [of w] uint_0_iff [of w] by arith

lemma processTouch_oob:
  "outOfBounds s touch \<Longrightarrow> processTouch s now touch = (False, s)"
  by (auto simp: processTouch_def outOfBounds_def)

lemma processTouch_ptl:
  "\<not> outOfBounds s touch \<Longrightarrow> pressureTooLow s touch \<Longrightarrow> processTouch s now touch = (False, s)"
  by (simp add: processTouch_def outOfBounds_def pressureTooLow_def uint_pos_iff linorder_not_less)


lemma processTouch_idw:
  "\<not> outOfBounds s touch \<Longrightarrow> \<not> pressureTooLow s touch \<Longrightarrow> inDebounceWindow s touch \<Longrightarrow>
   processTouch s now touch = (debounceSamePosition s touch, s)"
  unfolding processTouch_def outOfBounds_def pressureTooLow_def inDebounceWindow_def
    debounceSamePosition_def
  by (simp add: uint_pos_iff linorder_not_less Let_def)

lemma processTouch_tail:
  assumes "\<not> outOfBounds s touch" "\<not> pressureTooLow s touch" "\<not> inDebounceWindow s touch"
  shows "processTouch s now touch =
     (let (gateOk, s1) = gateResult s touch
         in if \<not> gateOk then (False, s1)
            else
              (let (water, s2) = isWaterPattern s1 now touch
               in if water
                  then (False, s2\<lparr>waterDropletsRejected := waterDropletsRejected s2 + 1\<rparr>)
                  else if isStaticTouch s2 touch
                  then (False, s2\<lparr>waterDropletsRejected := waterDropletsRejected s2 + 1\<rparr>)
                  else
                    (let s3 = updateHistory s2 touch;
                         s4 = updateZones s3 touch
                     in (True, s4\<lparr>lastValidTouchTime := timestamp touch,
                                   lastValidTouch := touch,
                                   validTouches := validTouches s4 + 1\<rparr>))))"
proof -
  have a: "\<not> (sint (tp_x touch) < 0 \<or> sint (tp_x touch) \<ge> uint (screenWidth s) \<or>
         sint (tp_y touch) < 0 \<or> sint (tp_y touch) \<ge> uint (screenHeight s))"
    using assms(1) by (auto simp: outOfBounds_def)
  have b: "\<not> (screenType s = SCREEN_RESISTIVE \<and>
              uint (pressureThreshold (config s)) > 0 \<and>
              uint (pressure touch) < uint (pressureThreshold (config s)))"
    using assms(2) by (simp add: pressureTooLow_def uint_pos_iff)
  have c: "\<not> (screenType s = SCREEN_RESISTIVE \<and>
              uint (debounceTime (config s)) > 0 \<and>
              unat (timestamp touch - lastValidTouchTime s) < unat (debounceTime (config s)))"
    using assms(3) by (simp add: inDebounceWindow_def uint_pos_iff)
  show ?thesis
    unfolding processTouch_def gateResult_def
    by (simp only: a b c if_False)
qed


lemma validateGesture_counter [simp]:
  "waterDropletsRejected (snd (validateGesture s touch)) = waterDropletsRejected s"
  by (simp add: validateGesture_def Let_def split: GestureState.split)

lemma setZone_counter [simp]:
  "waterDropletsRejected (setZone s i j z) = waterDropletsRejected s"
  by (simp add: setZone_def)

lemma checkZoneActivity_counter [simp]:
  "waterDropletsRejected (snd (checkZoneActivity s now zx zy)) = waterDropletsRejected s"
  by (simp add: checkZoneActivity_def Let_def)

lemma isWaterPattern_counter [simp]:
  "waterDropletsRejected (snd (isWaterPattern s now touch)) = waterDropletsRejected s"
  by (simp add: isWaterPattern_def Let_def)

lemma gateResult_counter [simp]:
  "waterDropletsRejected (snd (gateResult s touch)) = waterDropletsRejected s"
  by (simp add: gateResult_def)

lemma updateZones_counter [simp]:
  "waterDropletsRejected (updateZones s touch) = waterDropletsRejected s"
  by (simp add: updateZones_def Let_def)

lemma updateHistory_counter [simp]:
  "waterDropletsRejected (updateHistory s touch) = waterDropletsRejected s"
  by (simp add: updateHistory_def)

lemma processTouch_gate_rejects:
  assumes "reachesGate s touch" "\<not> fst (gateResult s touch)"
  shows "processTouch s now touch = (False, snd (gateResult s touch))"
proof -
  obtain g s1 where g: "gateResult s touch = (g, s1)" by (cases "gateResult s touch")
  with assms(2) have "\<not> g" by simp
  with assms(1) g show ?thesis
    by (simp add: processTouch_tail reachesGate_def)
qed

lemma processTouch_water_rejects:
  assumes "waterRejected s now touch"
  shows "processTouch s now touch =
           (False, (snd (isWaterPattern (snd (gateResult s touch)) now touch))
                     \<lparr>waterDropletsRejected := waterDropletsRejected s + 1\<rparr>)"
proof -
  obtain g s1 where g: "gateResult s touch = (g, s1)" by (cases "gateResult s touch")
  obtain w s2 where w: "isWaterPattern s1 now touch = (w, s2)"
    by (cases "isWaterPattern s1 now touch")
  have c1: "waterDropletsRejected s1 = waterDropletsRejected s"
    using gateResult_counter [of s touch] by (simp add: g)
  have c2: "waterDropletsRejected s2 = waterDropletsRejected s1"
    using isWaterPattern_counter [of s1 now touch] by (simp add: w)
  from assms have r: "reachesGate s touch" and "g" and "w \<or> isStaticTouch s2 touch"
    by (simp_all add: waterRejected_def g w)
  then show ?thesis
    by (auto simp: processTouch_tail reachesGate_def g w c1 c2)
qed

lemma processTouch_accepts:
  assumes "reachesGate s touch" "fst (gateResult s touch)" "\<not> waterRejected s now touch"
  shows "fst (processTouch s now touch) \<and>
         waterDropletsRejected (snd (processTouch s now touch)) = waterDropletsRejected s"
proof -
  obtain g s1 where g: "gateResult s touch = (g, s1)" by (cases "gateResult s touch")
  obtain w s2 where w: "isWaterPattern s1 now touch = (w, s2)"
    by (cases "isWaterPattern s1 now touch")
  have c1: "waterDropletsRejected s1 = waterDropletsRejected s"
    using gateResult_counter [of s touch] by (simp add: g)
  have c2: "waterDropletsRejected s2 = waterDropletsRejected s1"
    using isWaterPattern_counter [of s1 now touch] by (simp add: w)
  from assms have "g" and "\<not> w" and "\<not> isStaticTouch s2 touch"
    by (simp_all add: waterRejected_def g w)
  with assms(1) show ?thesis
    by (simp add: processTouch_tail reachesGate_def g w c1 c2 Let_def)
qed

lemma word_succ_neq: "(w :: 'a::len word) + 1 \<noteq> w"
  by simp

section \<open>Claims about the single-sample call\<close>

text \<open>
  C1. A sample whose x is outside \<open>[0, screenWidth)\<close> or whose y is outside
  \<open>[0, screenHeight)\<close> is rejected, and the call returns the engine it was given: the
  accepted and rejected counters, the touch history, the zone grid, the gesture state and
  the debounce reference (with every other field) are unchanged.
\<close>

theorem processTouch_out_of_bounds:
  "outOfBounds s touch \<Longrightarrow> processTouch s now touch = (False, s)"
  by (auto simp: outOfBounds_def processTouch_def)

theorem processTouch_out_of_bounds_witness:
  "outOfBounds engine0 touch_right_of_screen \<and>
   processTouch engine0 7 touch_right_of_screen = (False, engine0)"
proof -
  have h: "outOfBounds engine0 touch_right_of_screen"
    by (simp add: outOfBounds_def engine0_def touch_right_of_screen_def
        new_WaterRejectionTouch_def)
  show ?thesis
    using h processTouch_out_of_bounds [OF h, of 7] by simp
qed

text \<open>
  C2. The rejected counter is incremented by the call exactly when the sample is rejected
  by a water-pattern test (area, zone activity or static touch), and is unchanged
  otherwise. A water-pattern rejection, an out-of-bounds sample, insufficient pressure, a
  moved sample inside the debounce window and a gesture-gate rejection all return the same
  \<open>False\<close>.
\<close>

theorem processTouch_rejected_counter:
  "(waterDropletsRejected (snd (processTouch s now touch)) = waterDropletsRejected s + 1)
     = waterRejected s now touch \<and>
   (waterDropletsRejected (snd (processTouch s now touch)) = waterDropletsRejected s)
     = (\<not> waterRejected s now touch) \<and>
   (waterRejected s now touch \<longrightarrow> \<not> fst (processTouch s now touch)) \<and>
   (outOfBounds s touch \<longrightarrow> \<not> fst (processTouch s now touch)) \<and>
   (pressureTooLow s touch \<longrightarrow> \<not> fst (processTouch s now touch)) \<and>
   (\<not> outOfBounds s touch \<and> \<not> pressureTooLow s touch \<and> inDebounceWindow s touch \<and>
      \<not> debounceSamePosition s touch \<longrightarrow> \<not> fst (processTouch s now touch)) \<and>
   (reachesGate s touch \<and> \<not> fst (gateResult s touch) \<longrightarrow> \<not> fst (processTouch s now touch))"
proof (cases "waterRejected s now touch")
  case True
  then have r: "reachesGate s touch" and g: "fst (gateResult s touch)"
    by (simp_all add: waterRejected_def)
  from True show ?thesis
    using r g by (simp add: processTouch_water_rejects reachesGate_def)
next
  case nw: False
  have unchanged: "waterDropletsRejected (snd (processTouch s now touch)) = waterDropletsRejected s"
  proof (cases "reachesGate s touch")
    case True
    show ?thesis
    proof (cases "fst (gateResult s touch)")
      case True
      with \<open>reachesGate s touch\<close> nw show ?thesis by (simp add: processTouch_accepts)
    next
      case False
      with \<open>reachesGate s touch\<close> show ?thesis by (simp add: processTouch_gate_rejects)
    qed
  next
    case False
    then consider "outOfBounds s touch"
      | "\<not> outOfBounds s touch" "pressureTooLow s touch"
      | "\<not> outOfBounds s touch" "\<not> pressureTooLow s touch" "inDebounceWindow s touch"
      by (auto simp: reachesGate_def)
    then show ?thesis
      by cases (simp_all add: processTouch_oob processTouch_ptl processTouch_idw)
  qed
  have rej: "outOfBounds s touch \<longrightarrow> \<not> fst (processTouch s now touch)"
    by (simp add: processTouch_oob)
  have rej2: "pressureTooLow s touch \<longrightarrow> \<not> fst (processTouch s now touch)"
    by (cases "outOfBounds s touch") (simp_all add: processTouch_oob processTouch_ptl)
  have rej3: "\<not> outOfBounds s touch \<and> \<not> pressureTooLow s touch \<and> inDebounceWindow s touch \<and>
      \<not> debounceSamePosition s touch \<longrightarrow> \<not> fst (processTouch s now touch)"
    by (simp add: processTouch_idw)
  have rej4: "reachesGate s touch \<and> \<not> fst (gateResult s touch) \<longrightarrow> \<not> fst (processTouch s now touch)"
    by (simp add: processTouch_gate_rejects)
  from nw unchanged rej rej2 rej3 rej4 show ?thesis
    by (simp add: word_succ_neq)
qed


theorem processTouch_rejected_counter_witness:
  "waterRejected engine0 7 touch_large_area \<and>
   waterDropletsRejected (snd (processTouch engine0 7 touch_large_area)) = 1 \<and>
   \<not> fst (processTouch engine0 7 touch_large_area) \<and>
   outOfBounds engine0 touch_right_of_screen \<and>
   waterDropletsRejected (snd (processTouch engine0 7 touch_right_of_screen)) = 0 \<and>
   \<not> fst (processTouch engine0 7 touch_right_of_screen) \<and>
   pressureTooLow resistive_pressed touch_repeat_light \<and>
   \<not> fst (processTouch resistive_pressed 1010 touch_repeat_light) \<and>
   inDebounceWindow resistive_pressed touch_repeat_far \<and>
   \<not> debounceSamePosition resistive_pressed touch_repeat_far \<and>
   \<not> fst (processTouch resistive_pressed 1010 touch_repeat_far) \<and>
   waterDropletsRejected (snd (processTouch resistive_pressed 1010 touch_repeat_far)) = 0 \<and>
   reachesGate gesture_idle touch_edge \<and>
   \<not> fst (gateResult gesture_idle touch_edge) \<and>
   \<not> fst (processTouch gesture_idle 0 touch_edge) \<and>
   waterDropletsRejected (snd (processTouch gesture_idle 0 touch_edge)) = 0"
proof -
  have w: "waterRejected engine0 7 touch_large_area" by code_simp
  have o: "outOfBounds engine0 touch_right_of_screen" by code_simp
  then have n: "\<not> waterRejected engine0 7 touch_right_of_screen"
    by (simp add: waterRejected_def reachesGate_def)
  have z: "waterDropletsRejected engine0 = 0" by code_simp
  have p: "pressureTooLow resistive_pressed touch_repeat_light" by code_simp
  have d: "\<not> outOfBounds resistive_pressed touch_repeat_far \<and>
           \<not> pressureTooLow resistive_pressed touch_repeat_far \<and>
           inDebounceWindow resistive_pressed touch_repeat_far \<and>
           \<not> debounceSamePosition resistive_pressed touch_repeat_far" by code_simp
  then have nd: "\<not> waterRejected resistive_pressed 1010 touch_repeat_far"
    by (simp add: waterRejected_def reachesGate_def)
  have zr: "waterDropletsRejected resistive_pressed = 0" by code_simp
  have g: "reachesGate gesture_idle touch_edge \<and> \<not> fst (gateResult gesture_idle touch_edge)"
    by code_simp
  then have ng: "\<not> waterRejected gesture_idle 0 touch_edge"
    by (simp add: waterRejected_def)
  have zg: "waterDropletsRejected gesture_idle = 0" by code_simp
  show ?thesis
    using w o n z p d nd zr g ng zg
      processTouch_rejected_counter [of engine0 7 touch_large_area]
      processTouch_rejected_counter [of engine0 7 touch_right_of_screen]
      processTouch_rejected_counter [of resistive_pressed 1010 touch_repeat_light]
      processTouch_rejected_counter [of resistive_pressed 1010 touch_repeat_far]
      processTouch_rejected_counter [of gesture_idle 0 touch_edge]
    by simp
qed

section \<open>The gesture gate\<close>

lemma gesture_idle_simps:
  "gestureState gesture_idle = GESTURE_IDLE"
  "requireGesture (config gesture_idle)"
  "edgeSwipeThreshold (config gesture_idle) = 50"
  "gestureTimeout (config gesture_idle) = 500"
  "swipeMinDistance (config gesture_idle) = 150"
  by (simp_all add: gesture_idle_def enableGestureMode_def engine0_def
      new_WaterRejectionTouch_def default_config_def)

lemma gesture_waiting_eq:
  "gesture_waiting = gesture_idle\<lparr>gestureState := GESTURE_WAITING,
       gestureStateTimeout := 500, gestureStartPoint := touch_edge\<rparr>"
  by (simp add: gesture_waiting_def validateGesture_def gesture_idle_simps touch_edge_def)

lemma gesture_active_eq:
  "gesture_active = gesture_idle\<lparr>gestureState := GESTURE_ACTIVE,
       gestureStateTimeout := 30100, gestureStartPoint := touch_edge\<rparr>"
  by (simp add: gesture_active_def gesture_waiting_eq validateGesture_def gesture_idle_simps
      touch_edge_def touch_at_151_def)

text \<open>
  C3 (amended). With gesture gating enabled the gate makes these transitions. From Idle, a
  sample with x below the edge-swipe threshold moves the state to Waiting, records the
  sample as start point, sets the deadline to the sample's time plus \<open>gestureTimeout\<close>
  (in 32-bit arithmetic), and is not approved. From Waiting, not after the deadline, a
  sample whose x exceeds the start point's x by more than \<open>swipeMinDistance\<close> moves
  the state to Active, is approved, and sets the deadline to its time plus 30000 ms. From
  Active, not after the deadline, every sample is approved and the engine, deadline
  included, is unchanged.
\<close>

theorem gesture_gate_transitions:
  "(requireGesture (config s) \<and> gestureState s = GESTURE_IDLE \<and>
      sint (tp_x touch) < uint (edgeSwipeThreshold (config s)) \<longrightarrow>
    gateResult s touch =
      (False, s\<lparr>gestureState := GESTURE_WAITING,
                 gestureStateTimeout := timestamp touch + ucast (gestureTimeout (config s)),
                 gestureStartPoint := touch\<rparr>)) \<and>
   (requireGesture (config s) \<and> gestureState s = GESTURE_WAITING \<and>
      timestamp touch \<le> gestureStateTimeout s \<and>
      sint (tp_x touch) - sint (tp_x (gestureStartPoint s)) > uint (swipeMinDistance (config s)) \<longrightarrow>
    gateResult s touch =
      (True, s\<lparr>gestureState := GESTURE_ACTIVE,
                gestureStateTimeout := timestamp touch + 30000\<rparr>)) \<and>
   (requireGesture (config s) \<and> gestureState s = GESTURE_ACTIVE \<and>
      timestamp touch \<le> gestureStateTimeout s \<longrightarrow>
    gateResult s touch = (True, s))"
  by (auto simp: gateResult_def validateGesture_def Let_def)

theorem gesture_gate_transitions_witness:
  "gateResult gesture_idle touch_edge = (False, gesture_waiting) \<and>
   gestureState gesture_waiting = GESTURE_WAITING \<and>
   gestureStateTimeout gesture_waiting = 500 \<and>
   gateResult gesture_waiting touch_at_151 = (True, gesture_active) \<and>
   gestureState gesture_active = GESTURE_ACTIVE \<and>
   gestureStateTimeout gesture_active = 30100 \<and>
   gateResult gesture_active touch_later = (True, gesture_active)"
proof -
  have a: "requireGesture (config gesture_idle) \<and> gestureState gesture_idle = GESTURE_IDLE \<and>
      sint (tp_x touch_edge) < uint (edgeSwipeThreshold (config gesture_idle))"
    by (simp add: gesture_idle_simps touch_edge_def)
  have b: "requireGesture (config gesture_waiting) \<and> gestureState gesture_waiting = GESTURE_WAITING \<and>
      timestamp touch_at_151 \<le> gestureStateTimeout gesture_waiting \<and>
      sint (tp_x touch_at_151) - sint (tp_x (gestureStartPoint gesture_waiting))
        > uint (swipeMinDistance (config gesture_waiting))"
    by (simp add: gesture_waiting_eq gesture_idle_simps touch_edge_def touch_at_151_def)
  have c: "requireGesture (config gesture_active) \<and> gestureState gesture_active = GESTURE_ACTIVE \<and>
      timestamp touch_later \<le> gestureStateTimeout gesture_active"
    by (simp add: gesture_active_eq gesture_idle_simps touch_later_def)
  have a': "gateResult gesture_idle touch_edge = (False, gesture_waiting)"
    using a gesture_gate_transitions [of gesture_idle touch_edge]
    by (simp add: gesture_waiting_eq gesture_idle_simps touch_edge_def)
  have b': "gateResult gesture_waiting touch_at_151 = (True, gesture_active)"
    using b gesture_gate_transitions [of gesture_waiting touch_at_151]
    by (simp add: gesture_waiting_eq gesture_active_eq touch_at_151_def)
  have c': "gateResult gesture_active touch_later = (True, gesture_active)"
    using c gesture_gate_transitions [of gesture_active touch_later] by simp
  show ?thesis
    using a' b' c' by (simp add: gesture_waiting_eq gesture_active_eq)
qed

text \<open>
  C3 as stated asks for the transition to Active at a distance of at least
  \<open>swipeMinDistance\<close>. After a start at \<open>x = 0\<close>, a sample at \<open>x = 150\<close> before the
  deadline, with the default \<open>swipeMinDistance = 150\<close>, is not approved and leaves the
  gate in Waiting: the comparison of line 365 is strict.
\<close>

theorem gesture_gate_exact_distance_counterexample:
  "requireGesture (config gesture_waiting) \<and>
   gestureState gesture_waiting = GESTURE_WAITING \<and>
   timestamp touch_at_150 < gestureStateTimeout gesture_waiting \<and>
   sint (tp_x touch_at_150) - sint (tp_x (gestureStartPoint gesture_waiting))
     \<ge> uint (swipeMinDistance (config gesture_waiting)) \<and>
   gateResult gesture_waiting touch_at_150 = (False, gesture_waiting)"
  by (simp add: gesture_waiting_eq gesture_idle_simps touch_edge_def touch_at_150_def
      gateResult_def validateGesture_def)

section \<open>Calibration\<close>

lemma engine0_simps:
  "screenType engine0 = SCREEN_CAPACITIVE"
  "screenType engine0_resistive = SCREEN_RESISTIVE"
  "screenType engine0_override = SCREEN_CAPACITIVE"
  "minMovement (config engine0) = 5"
  "minMovement (config engine0_override) = 99"
  by (simp_all add: engine0_def engine0_resistive_def engine0_override_def setConfig_def
      new_WaterRejectionTouch_def default_config_def)

text \<open>
  C7 (amended). For each technology the wet preset has a strictly smaller maximum touch
  area and a strictly shorter maximum static time than the normal preset, requires the
  gesture where the normal preset does not, and allows no more simultaneous touches:
  strictly fewer on a capacitive engine (1 against 2), the same single touch on a
  resistive engine.
\<close>

theorem calibrate_wet_stricter:
  "maxTouchArea (config (calibrateForEnvironment s True))
     < maxTouchArea (config (calibrateForEnvironment s False)) \<and>
   maxStaticTime (config (calibrateForEnvironment s True))
     < maxStaticTime (config (calibrateForEnvironment s False)) \<and>
   maxSimultaneousTouches (config (calibrateForEnvironment s True))
     \<le> maxSimultaneousTouches (config (calibrateForEnvironment s False)) \<and>
   (screenType s = SCREEN_CAPACITIVE \<longrightarrow>
      maxSimultaneousTouches (config (calibrateForEnvironment s True))
        < maxSimultaneousTouches (config (calibrateForEnvironment s False))) \<and>
   (screenType s = SCREEN_RESISTIVE \<longrightarrow>
      maxSimultaneousTouches (config (calibrateForEnvironment s True)) = 1 \<and>
      maxSimultaneousTouches (config (calibrateForEnvironment s False)) = 1) \<and>
   requireGesture (config (calibrateForEnvironment s True)) \<and>
   \<not> requireGesture (config (calibrateForEnvironment s False))"
  by (cases "screenType s") (simp_all add: calibrateForEnvironment_def)

theorem calibrate_wet_stricter_witness:
  "screenType engine0 = SCREEN_CAPACITIVE \<and>
   maxSimultaneousTouches (config (calibrateForEnvironment engine0 True))
     < maxSimultaneousTouches (config (calibrateForEnvironment engine0 False)) \<and>
   screenType engine0_resistive = SCREEN_RESISTIVE \<and>
   maxSimultaneousTouches (config (calibrateForEnvironment engine0_resistive True)) = 1 \<and>
   maxSimultaneousTouches (config (calibrateForEnvironment engine0_resistive False)) = 1 \<and>
   maxTouchArea (config (calibrateForEnvironment engine0_resistive True))
     < maxTouchArea (config (calibrateForEnvironment engine0_resistive False))"
  using calibrate_wet_stricter [of engine0] calibrate_wet_stricter [of engine0_resistive]
  by (simp add: engine0_simps)

text \<open>
  C7 as stated asks for strictly fewer simultaneous touches on both technologies. On a
  resistive engine both presets set \<open>maxSimultaneousTouches\<close> to 1.
\<close>

theorem calibrate_resistive_touches_counterexample:
  "screenType engine0_resistive = SCREEN_RESISTIVE \<and>
   \<not> maxSimultaneousTouches (config (calibrateForEnvironment engine0_resistive True))
       < maxSimultaneousTouches (config (calibrateForEnvironment engine0_resistive False))"
  by (simp add: engine0_simps calibrateForEnvironment_def)

text \<open>
  C8 (amended). The calibration selector assigns only \<open>maxTouchArea\<close>,
  \<open>maxStaticTime\<close>, \<open>maxSimultaneousTouches\<close> and \<open>requireGesture\<close>, and on a
  resistive engine \<open>pressureThreshold\<close>; the values assigned depend only on the
  technology and the environment. \<open>minMovement\<close>, \<open>touchTimeout\<close>,
  \<open>gestureTimeout\<close>, \<open>edgeSwipeThreshold\<close>, \<open>swipeMinDistance\<close> and
  \<open>debounceTime\<close>, and on a capacitive engine \<open>pressureThreshold\<close>, keep the values
  they had before the call, and no field of the engine outside the configuration changes.
\<close>

theorem calibrate_assigns_preset_fields:
  "minMovement (config (calibrateForEnvironment s wet)) = minMovement (config s) \<and>
   touchTimeout (config (calibrateForEnvironment s wet)) = touchTimeout (config s) \<and>
   gestureTimeout (config (calibrateForEnvironment s wet)) = gestureTimeout (config s) \<and>
   edgeSwipeThreshold (config (calibrateForEnvironment s wet)) = edgeSwipeThreshold (config s) \<and>
   swipeMinDistance (config (calibrateForEnvironment s wet)) = swipeMinDistance (config s) \<and>
   debounceTime (config (calibrateForEnvironment s wet)) = debounceTime (config s) \<and>
   (screenType s = SCREEN_CAPACITIVE \<longrightarrow>
      pressureThreshold (config (calibrateForEnvironment s wet)) = pressureThreshold (config s)) \<and>
   (screenType s = screenType s' \<longrightarrow>
      maxTouchArea (config (calibrateForEnvironment s wet))
        = maxTouchArea (config (calibrateForEnvironment s' wet)) \<and>
      maxStaticTime (config (calibrateForEnvironment s wet))
        = maxStaticTime (config (calibrateForEnvironment s' wet)) \<and>
      maxSimultaneousTouches (config (calibrateForEnvironment s wet))
        = maxSimultaneousTouches (config (calibrateForEnvironment s' wet)) \<and>
      requireGesture (config (calibrateForEnvironment s wet))
        = requireGesture (config (calibrateForEnvironment s' wet))) \<and>
   (screenType s = SCREEN_RESISTIVE \<and> screenType s' = SCREEN_RESISTIVE \<longrightarrow>
      pressureThreshold (config (calibrateForEnvironment s wet))
        = pressureThreshold (config (calibrateForEnvironment s' wet))) \<and>
   calibrateForEnvironment s wet = s\<lparr>config := config (calibrateForEnvironment s wet)\<rparr>"
  by (cases "screenType s"; cases "screenType s'"; cases wet)
     (simp_all add: calibrateForEnvironment_def)

theorem calibrate_assigns_preset_fields_witness:
  "screenType engine0 = screenType engine0_override \<and>
   screenType engine0 = SCREEN_CAPACITIVE \<and>
   maxTouchArea (config (calibrateForEnvironment engine0 True))
     = maxTouchArea (config (calibrateForEnvironment engine0_override True)) \<and>
   minMovement (config (calibrateForEnvironment engine0_override True)) = 99 \<and>
   pressureThreshold (config (calibrateForEnvironment engine0 True))
     = pressureThreshold (config engine0)"
  using calibrate_assigns_preset_fields [of engine0 True engine0_override]
    calibrate_assigns_preset_fields [of engine0_override True engine0]
  by (simp add: engine0_simps)

text \<open>
  C8 as stated makes the configuration after calibration a function of technology and
  environment alone. Two capacitive engines that differ only in a prior override of
  \<open>minMovement\<close> (5 and 99) still differ after the same wet calibration.
\<close>

theorem calibrate_keeps_override_counterexample:
  "screenType engine0 = screenType engine0_override \<and>
   minMovement (config (calibrateForEnvironment engine0 True)) = 5 \<and>
   minMovement (config (calibrateForEnvironment engine0_override True)) = 99 \<and>
   config (calibrateForEnvironment engine0 True)
     \<noteq> config (calibrateForEnvironment engine0_override True)"
proof -
  have a: "minMovement (config (calibrateForEnvironment engine0 True)) = 5"
    by (simp add: calibrateForEnvironment_def engine0_simps)
  have b: "minMovement (config (calibrateForEnvironment engine0_override True)) = 99"
    by (simp add: calibrateForEnvironment_def engine0_simps)
  have "minMovement (config (calibrateForEnvironment engine0 True))
          \<noteq> minMovement (config (calibrateForEnvironment engine0_override True))"
    by (simp only: a b) simp
  then have "config (calibrateForEnvironment engine0 True)
     \<noteq> config (calibrateForEnvironment engine0_override True)"
    by metis
  with a b show ?thesis by (simp add: engine0_simps)
qed

section \<open>Debounce\<close>

text \<open>Narrowing \<open>abs(a - b)\<close> to 16 bits never makes it larger.\<close>

lemma sint_abs_i16_le: "sint (abs_i16 d) \<le> \<bar>d\<bar>"
proof -
  have "signed_take_bit 15 \<bar>d\<bar> \<le> \<bar>d\<bar>"
    by (simp add: signed_take_bit_int_less_eq_self_iff)
  then show ?thesis
    by (simp add: abs_i16_def sint_sbintrunc')
qed

lemma nearLastValid_debounceSamePosition:
  "nearLastValid s touch \<Longrightarrow> debounceSamePosition s touch"
  unfolding nearLastValid_def debounceSamePosition_def
  using sint_abs_i16_le [of "sint (tp_x touch) - sint (tp_x (lastValidTouch s))"]
    sint_abs_i16_le [of "sint (tp_y touch) - sint (tp_y (lastValidTouch s))"]
  by linarith

text \<open>
  C9 (amended). On a resistive engine with a nonzero debounce interval, an in-bounds
  sample whose pressure passes the pressure check, whose timestamp is within the debounce
  window of the last accepted sample and whose displacement from it is below the movement
  threshold in both axes, is accepted, and the call returns the engine it was given:
  history, zone grid, both counters and the debounce reference are unchanged.
\<close>

theorem debounce_repeat_accepted_unchanged:
  assumes "screenType s = SCREEN_RESISTIVE" and "debounceTime (config s) \<noteq> 0"
    and "\<not> outOfBounds s touch" and "\<not> pressureTooLow s touch"
    and "unat (timestamp touch - lastValidTouchTime s) < unat (debounceTime (config s))"
    and "nearLastValid s touch"
  shows "processTouch s now touch = (True, s)"
proof -
  have "inDebounceWindow s touch"
    using assms(1,2,5) by (simp add: inDebounceWindow_def)
  with assms(3,4) have "processTouch s now touch = (debounceSamePosition s touch, s)"
    by (rule processTouch_idw)
  with assms(6) show ?thesis
    by (simp add: nearLastValid_debounceSamePosition)
qed

theorem debounce_repeat_accepted_unchanged_witness:
  "fst (processTouch_xyp resistive_engine 1000 100 100 250) \<and>
   screenType resistive_pressed = SCREEN_RESISTIVE \<and>
   debounceTime (config resistive_pressed) \<noteq> 0 \<and>
   \<not> outOfBounds resistive_pressed touch_repeat_firm \<and>
   \<not> pressureTooLow resistive_pressed touch_repeat_firm \<and>
   unat (timestamp touch_repeat_firm - lastValidTouchTime resistive_pressed)
     < unat (debounceTime (config resistive_pressed)) \<and>
   nearLastValid resistive_pressed touch_repeat_firm \<and>
   processTouch resistive_pressed 1010 touch_repeat_firm = (True, resistive_pressed)"
proof -
  have a: "fst (processTouch_xyp resistive_engine 1000 100 100 250)" by code_simp
  have h1: "screenType resistive_pressed = SCREEN_RESISTIVE" by code_simp
  have h2: "debounceTime (config resistive_pressed) \<noteq> 0" by code_simp
  have h3: "\<not> outOfBounds resistive_pressed touch_repeat_firm" by code_simp
  have h4: "\<not> pressureTooLow resistive_pressed touch_repeat_firm" by code_simp
  have h5: "unat (timestamp touch_repeat_firm - lastValidTouchTime resistive_pressed)
     < unat (debounceTime (config resistive_pressed))" by code_simp
  have h6: "nearLastValid resistive_pressed touch_repeat_firm" by code_simp
  show ?thesis
    using a h1 h2 h3 h4 h5 h6
      debounce_repeat_accepted_unchanged [OF h1 h2 h3 h4 h5 h6, of 1010]
    by simp
qed

text \<open>
  C9 as stated has no condition on pressure. After the sample at (100, 100) is accepted
  at time 1000, a repeat at the same position 10 ms later with pressure 100, below the
  threshold of 200, is inside the debounce window and at zero displacement, and is
  rejected by the pressure check that precedes the debounce branch.
\<close>

theorem debounce_light_repeat_counterexample:
  "fst (processTouch_xyp resistive_engine 1000 100 100 250) \<and>
   screenType resistive_pressed = SCREEN_RESISTIVE \<and>
   debounceTime (config resistive_pressed) \<noteq> 0 \<and>
   \<not> outOfBounds resistive_pressed touch_repeat_light \<and>
   inDebounceWindow resistive_pressed touch_repeat_light \<and>
   nearLastValid resistive_pressed touch_repeat_light \<and>
   \<not> fst (processTouch resistive_pressed 1010 touch_repeat_light)"
  by code_simp

section \<open>Static-touch test\<close>

text \<open>The counting loop of \<open>isStaticTouch\<close> counts the matching entries, in 8 bits.\<close>

lemma foldl_count:
  "foldl (\<lambda>(c :: u8) h. if P h then c + 1 else c) c0 xs = c0 + of_nat (length (filter P xs))"
  by (induction xs arbitrary: c0) simp_all

lemma unat_count_u8:
  assumes "length xs < 256"
  shows "unat (of_nat (length (filter P xs)) :: u8) = length (filter P xs)"
proof -
  have "length (filter P xs) \<le> length xs" by simp
  with assms have "length (filter P xs) < 256" by linarith
  then show ?thesis by (simp add: unat_of_nat)
qed

lemma isStaticTouch_count:
  "length (touchHistory s) < 256 \<Longrightarrow>
   isStaticTouch s touch = (5 < length (filter (staticMatch s touch) (touchHistory s)))"
  by (simp add: isStaticTouch_def foldl_count unat_count_u8)

lemma recentNear_staticMatch: "recentNear s touch h \<Longrightarrow> staticMatch s touch h"
  unfolding recentNear_def staticMatch_def
  using sint_abs_i16_le [of "sint (tp_x h) - sint (tp_x touch)"]
    sint_abs_i16_le [of "sint (tp_y h) - sint (tp_y touch)"]
  by linarith

lemma filter_length_mono:
  "(\<And>x. P x \<Longrightarrow> Q x) \<Longrightarrow> length (filter P xs) \<le> length (filter Q xs)"
  by (induction xs) auto

lemma sint_abs_i16_exact: "\<bar>d\<bar> < 32768 \<Longrightarrow> sint (abs_i16 d) = \<bar>d\<bar>"
  by (simp add: abs_i16_def sint_sbintrunc' signed_take_bit_int_eq_self)

lemma sint_i16_range: "- 32768 \<le> sint (w :: i16) \<and> sint w < 32768"
  using sint_ge [of w] sint_lt [of w] by simp

lemma staticMatch_recentNear_nonneg:
  assumes "0 \<le> sint (tp_x h)" "0 \<le> sint (tp_y h)" "0 \<le> sint (tp_x touch)" "0 \<le> sint (tp_y touch)"
  shows "staticMatch s touch h = recentNear s touch h"
proof -
  have "\<bar>sint (tp_x h) - sint (tp_x touch)\<bar> < 32768"
    using assms(1,3) sint_i16_range [of "tp_x h"] sint_i16_range [of "tp_x touch"] by linarith
  moreover have "\<bar>sint (tp_y h) - sint (tp_y touch)\<bar> < 32768"
    using assms(2,4) sint_i16_range [of "tp_y h"] sint_i16_range [of "tp_y touch"] by linarith
  ultimately show ?thesis
    by (simp add: staticMatch_def recentNear_def sint_abs_i16_exact)
qed

text \<open>
  C4 (amended). The static-touch test rejects exactly when more than five history
  entries match the incoming sample. Hence six entries that are valid, within
  max-static-time of the incoming sample and displaced from it by less than the movement
  threshold make the test reject it (six accepted samples, then a seventh), and when no
  coordinate is negative, five or fewer such entries do not.
\<close>

theorem isStaticTouch_needs_six:
  assumes "length (touchHistory s) = HISTORY_SIZE"
  shows "isStaticTouch s touch = (5 < length (filter (staticMatch s touch) (touchHistory s))) \<and>
         (6 \<le> length (filter (recentNear s touch) (touchHistory s)) \<longrightarrow> isStaticTouch s touch) \<and>
         ((\<forall>h \<in> set (touchHistory s). 0 \<le> sint (tp_x h) \<and> 0 \<le> sint (tp_y h)) \<and>
          0 \<le> sint (tp_x touch) \<and> 0 \<le> sint (tp_y touch) \<and>
          length (filter (recentNear s touch) (touchHistory s)) \<le> 5 \<longrightarrow>
          \<not> isStaticTouch s touch)"
proof -
  have len: "length (touchHistory s) < 256"
    using assms by (simp add: HISTORY_SIZE_def)
  have a: "isStaticTouch s touch = (5 < length (filter (staticMatch s touch) (touchHistory s)))"
    using len by (rule isStaticTouch_count)
  have b: "6 \<le> length (filter (recentNear s touch) (touchHistory s)) \<longrightarrow> isStaticTouch s touch"
  proof
    assume six: "6 \<le> length (filter (recentNear s touch) (touchHistory s))"
    have "length (filter (recentNear s touch) (touchHistory s))
            \<le> length (filter (staticMatch s touch) (touchHistory s))"
      by (rule filter_length_mono) (rule recentNear_staticMatch)
    with six show "isStaticTouch s touch" by (simp add: a)
  qed
  have c: "(\<forall>h \<in> set (touchHistory s). 0 \<le> sint (tp_x h) \<and> 0 \<le> sint (tp_y h)) \<and>
          0 \<le> sint (tp_x touch) \<and> 0 \<le> sint (tp_y touch) \<and>
          length (filter (recentNear s touch) (touchHistory s)) \<le> 5 \<longrightarrow>
          \<not> isStaticTouch s touch"
  proof
    assume h: "(\<forall>h \<in> set (touchHistory s). 0 \<le> sint (tp_x h) \<and> 0 \<le> sint (tp_y h)) \<and>
          0 \<le> sint (tp_x touch) \<and> 0 \<le> sint (tp_y touch) \<and>
          length (filter (recentNear s touch) (touchHistory s)) \<le> 5"
    then have "filter (staticMatch s touch) (touchHistory s)
                 = filter (recentNear s touch) (touchHistory s)"
      by (intro filter_cong refl) (simp add: staticMatch_recentNear_nonneg)
    with h show "\<not> isStaticTouch s touch" by (simp add: a)
  qed
  from a b c show ?thesis by simp
qed

theorem isStaticTouch_needs_six_witness:
  "length (touchHistory (pressRun 6)) = HISTORY_SIZE \<and>
   6 \<le> length (filter (recentNear (pressRun 6) (press_at 600)) (touchHistory (pressRun 6))) \<and>
   isStaticTouch (pressRun 6) (press_at 600) \<and>
   length (touchHistory (pressRun 5)) = HISTORY_SIZE \<and>
   length (filter (recentNear (pressRun 5) (press_at 500)) (touchHistory (pressRun 5))) \<le> 5 \<and>
   \<not> isStaticTouch (pressRun 5) (press_at 500)"
proof -
  have l6: "length (touchHistory (pressRun 6)) = HISTORY_SIZE" by code_simp
  have n6: "6 \<le> length (filter (recentNear (pressRun 6) (press_at 600)) (touchHistory (pressRun 6)))"
    by code_simp
  have l5: "length (touchHistory (pressRun 5)) = HISTORY_SIZE" by code_simp
  have n5: "length (filter (recentNear (pressRun 5) (press_at 500)) (touchHistory (pressRun 5))) \<le> 5"
    by code_simp
  have p5: "\<forall>h \<in> set (touchHistory (pressRun 5)). 0 \<le> sint (tp_x h) \<and> 0 \<le> sint (tp_y h)"
    by code_simp
  have q5: "0 \<le> sint (tp_x (press_at 500)) \<and> 0 \<le> sint (tp_y (press_at 500))"
    by code_simp
  have s6: "isStaticTouch (pressRun 6) (press_at 600)"
    using isStaticTouch_needs_six [OF l6, of "press_at 600"] n6 by blast
  have s5: "\<not> isStaticTouch (pressRun 5) (press_at 500)"
    using isStaticTouch_needs_six [OF l5, of "press_at 500"] n5 p5 q5 by blast
  from l6 n6 s6 l5 n5 s5 show ?thesis by simp
qed

text \<open>
  C4 as stated has the sixth sample rejected. After five calls at (100, 100), 100 ms
  apart, all accepted, the history holds five entries that match a sixth sample at the
  same position at time 500; the static-touch test does not fire and the sixth call is
  accepted. The seventh call, at time 600, is the first one rejected.
\<close>

theorem static_sixth_sample_accepted_counterexample:
  "validTouches (pressRun 5) = 5 \<and>
   length (filter (recentNear (pressRun 5) (press_at 500)) (touchHistory (pressRun 5))) = 5 \<and>
   \<not> isStaticTouch (pressRun 5) (press_at 500) \<and>
   fst (processTouch_xy (pressRun 5) 500 100 100) \<and>
   \<not> fst (processTouch_xy (pressRun 6) 600 100 100)"
  by code_simp

section \<open>Zone-activity spread check\<close>

text \<open>
  When the rapid-repeat branch does not reject, \<open>checkZoneActivity\<close> answers by the
  number of counted cells in the whole 3 by 3 block around the sample's cell.
\<close>

lemma checkZoneActivity_spread:
  assumes "\<not> (active (zoneAt s (unat zoneX) (unat zoneY)) \<and>
              unat (currentTime - activationTime (zoneAt s (unat zoneX) (unat zoneY))) < 100)"
  shows "checkZoneActivity s currentTime zoneX zoneY =
           (4 < length (filter (neighbourCounts s currentTime zoneX zoneY) neighbourOffsets), s)"
proof -
  have "length neighbourOffsets < 256"
    by (simp add: neighbourOffsets_def)
  then have "unat (of_nat (length (filter (neighbourCounts s currentTime zoneX zoneY)
                neighbourOffsets)) :: u8)
           = length (filter (neighbourCounts s currentTime zoneX zoneY) neighbourOffsets)"
    by (rule unat_count_u8)
  moreover have "(active (zoneAt s (unat zoneX) (unat zoneY)) \<and>
              unat (currentTime - activationTime (zoneAt s (unat zoneX) (unat zoneY))) < 100)
            = False"
    using assms by blast
  ultimately show ?thesis
    unfolding checkZoneActivity_def Let_def
    by (simp only: foldl_count if_False simp_thms add_0)
qed

text \<open>
  C5. The claim has the spread check count the 8 neighbours only. The loop of lines
  204-217 also visits \<open>dx = 0, dy = 0\<close>, so the sample's own cell is counted. After the
  five accepted samples of the scenario, a sample in cell (6, 8) at time 200 finds four
  active neighbours, which is not more than 4, and is rejected all the same, as a water
  pattern: the own cell makes the count 5.
\<close>

theorem spread_check_counts_own_cell:
  "validTouches spread_engine = 5 \<and>
   zoneIndex 100 (screenWidth spread_engine) = 6 \<and>
   zoneIndex 100 (screenHeight spread_engine) = 8 \<and>
   \<not> unat (200 - activationTime (zoneAt spread_engine 6 8)) < 100 \<and>
   activeNeighbours8 spread_engine 200 6 8 = 4 \<and>
   length (filter (neighbourCounts spread_engine 200 6 8) neighbourOffsets) = 5 \<and>
   fst (checkZoneActivity spread_engine 200 6 8) \<and>
   processTouch_xy spread_engine 200 100 100
     = (False, spread_engine\<lparr>waterDropletsRejected := 1\<rparr>)"
  by code_simp

section \<open>Colinearity test of the batch call\<close>

lemma pairIndices_3: "pairIndices 3 = [(0, 1), (0, 2), (1, 2)]"
  by code_simp

lemma diagonal_loaded_simps:
  "currentTouchCount diagonal_loaded = 3"
  "multiTouchPoints diagonal_loaded = diagonal_batch @ [zero_TouchPoint, zero_TouchPoint]"
  "maxSimultaneousTouches (config multi_engine) = 5"
  by code_simp+

lemma vertical_loaded_simps:
  "currentTouchCount vertical_loaded = 3"
  "multiTouchPoints vertical_loaded = vertical_batch @ [zero_TouchPoint, zero_TouchPoint]"
  by code_simp+

lemma batch_each_accepted:
  "fst (foldl (processEach (\<lambda>i. 0) diagonal_batch) (False, diagonal_loaded) [0 ..< unat (3 :: u8)])"
  "fst (foldl (processEach (\<lambda>i. 0) vertical_batch) (False, vertical_loaded) [0 ..< unat (3 :: u8)])"
  by code_simp+

lemma sqrt_lower: "0 \<le> a \<Longrightarrow> a * a \<le> b \<Longrightarrow> a \<le> sqrt b"
  by (rule real_le_rsqrt) (simp add: power2_eq_square)

lemma diagonal_density: "\<not> calculateTouchClusterDensity diagonal_loaded < 50"
proof -
  have a: "100 \<le> sqrt 20000" by (rule sqrt_lower) simp_all
  have b: "200 \<le> sqrt 80000" by (rule sqrt_lower) simp_all
  have "calculateTouchClusterDensity diagonal_loaded
          = (sqrt 20000 + sqrt 80000 + sqrt 20000) / 3"
    by (simp add: calculateTouchClusterDensity_def diagonal_loaded_simps pairIndices_3
        diagonal_batch_def batch_point_def pointDistance_def)
  with a b show ?thesis by simp
qed

lemma vertical_density: "\<not> calculateTouchClusterDensity vertical_loaded < 50"
proof -
  have "calculateTouchClusterDensity vertical_loaded = (100 + 200 + 100) / 3"
    by (simp add: calculateTouchClusterDensity_def vertical_loaded_simps pairIndices_3
        vertical_batch_def batch_point_def pointDistance_def)
  then show ?thesis by simp
qed

lemma diagonal_quotient: "\<not> quotientExceeds 60000 10800000000 (9 / 10)"
proof -
  have "100000 \<le> sqrt 10800000000" by (rule sqrt_lower) simp_all
  then have "60000 / sqrt 10800000000 \<le> 60000 / 100000"
    by (intro divide_left_mono) simp_all
  then have "\<bar>60000 / sqrt 10800000000\<bar> \<le> 6 / 10"
    by simp
  then show ?thesis
    by (simp add: quotientExceeds_def)
qed

lemma pearson_diagonal: "pearson diagonal_batch = 1"
proof -
  have "sqrt 3600000000 = 60000"
    by (rule real_sqrt_unique) simp_all
  then show ?thesis
    by (simp add: pearson_def diagonal_batch_def batch_point_def)
qed

text \<open>
  C6. The claim has the colinearity test reject a batch exactly when the magnitude of
  the Pearson coefficient exceeds 0.9, with degenerate denominators guarded. Line 250
  takes \<open>n * sumY * sumY - sumY * sumY\<close> for the y factor under the root, where the
  coefficient has \<open>n * sumY2 - sumY * sumY\<close>, and divides without a guard. Three samples on
  the diagonal at (0, 0), (100, 100), (200, 200) have Pearson coefficient 1 and mean
  pairwise distance above 50; the value the code computes is \<open>60000 / sqrt 10800000000\<close>,
  about 0.58, the batch test does not reject, and \<open>processMultiTouch\<close> accepts the batch.
  Three samples on the vertical line \<open>x = 100\<close> give \<open>0 / sqrt 0\<close>, and the batch is
  accepted as well.
\<close>

theorem colinear_batch_not_rejected:
  "pearson diagonal_batch = 1 \<and>
   \<not> checkMultiTouchPattern diagonal_loaded \<and>
   fst (processMultiTouch multi_engine (\<lambda>i. 0) diagonal_batch 3) \<and>
   \<not> checkMultiTouchPattern vertical_loaded \<and>
   fst (processMultiTouch multi_engine (\<lambda>i. 0) vertical_batch 3)"
proof -
  have d: "\<not> checkMultiTouchPattern diagonal_loaded"
    using diagonal_quotient
    by (simp add: checkMultiTouchPattern_def diagonal_density diagonal_loaded_simps
        diagonal_batch_def batch_point_def)
  have v: "\<not> checkMultiTouchPattern vertical_loaded"
    by (simp add: checkMultiTouchPattern_def vertical_density vertical_loaded_simps
        vertical_batch_def batch_point_def quotientExceeds_def)
  have pd: "fst (processMultiTouch multi_engine (\<lambda>i. 0) diagonal_batch 3)"
    using d batch_each_accepted(1)
    by (simp add: processMultiTouch_def Let_def diagonal_loaded_simps
        flip: diagonal_loaded_def)
  have pv: "fst (processMultiTouch multi_engine (\<lambda>i. 0) vertical_batch 3)"
    using v batch_each_accepted(2)
    by (simp add: processMultiTouch_def Let_def diagonal_loaded_simps
        flip: vertical_loaded_def)
  from d v pd pv show ?thesis
    by (simp add: pearson_diagonal)
qed

section \<open>Zone update\<close>

lemma zoneAt_setZone_same:
  "i < length (zones s) \<Longrightarrow> j < length (zones s ! i) \<Longrightarrow> zoneAt (setZone s i j z) i j = z"
  by (simp add: zoneAt_def setZone_def)

lemma zoneAt_setZone_other:
  "i' \<noteq> i \<or> j' \<noteq> j \<Longrightarrow> zoneAt (setZone s i j z) i' j' = zoneAt s i' j'"
  by (cases "i < length (zones s)")
     (auto simp: zoneAt_def setZone_def nth_list_update list_update_beyond)

lemma wfZones_index:
  "wfZones s \<Longrightarrow> i < ZONE_GRID_SIZE \<Longrightarrow> i < length (zones s) \<and> length (zones s ! i) = ZONE_GRID_SIZE"
  by (simp add: wfZones_def)

text \<open>The tapping run: every call is accepted and keeps \<open>tapInv\<close>.\<close>

lemma tap_elapsed:
  assumes "j \<le> k" "k \<le> 1000"
  shows "unat ((600 * of_nat k :: u32) - 600 * of_nat j) = 600 * (k - j)"
proof -
  have "(of_nat (600 * (k - j)) :: u32) = 600 * of_nat k - 600 * of_nat j"
    using assms(1) by (simp add: of_nat_diff algebra_simps)
  then have "unat ((600 * of_nat k :: u32) - 600 * of_nat j) = unat (of_nat (600 * (k - j)) :: u32)"
    by (simp only:)
  also have "\<dots> = 600 * (k - j) mod 2 ^ LENGTH(32)"
    by (rule unat_of_nat)
  also have "\<dots> = 600 * (k - j)"
    using assms by (intro mod_less) simp
  finally show ?thesis .
qed

lemma zoneIndex_tap:
  "zoneIndex 100 320 = 6" "zoneIndex 100 240 = 8"
  by code_simp+

lemma neighbourOffsets_centre: "length (filter (\<lambda>d. d = (0, 0)) neighbourOffsets) = 1"
  by code_simp

lemma filter_length_mono_set:
  "(\<And>x. x \<in> set xs \<Longrightarrow> P x \<Longrightarrow> Q x) \<Longrightarrow> length (filter P xs) \<le> length (filter Q xs)"
  by (induction xs) auto

lemma tap_spread_count:
  assumes "tapInv k s"
  shows "length (filter (neighbourCounts s now 6 8) neighbourOffsets) \<le> 1"
proof -
  have others: "\<And>i j. i < 20 \<Longrightarrow> j < 20 \<Longrightarrow> i \<noteq> 6 \<or> j \<noteq> 8 \<Longrightarrow> \<not> active (zoneAt s i j)"
    using assms by (simp add: tapInv_def ZONE_GRID_SIZE_def)
  have "length (filter (neighbourCounts s now 6 8) neighbourOffsets)
          \<le> length (filter (\<lambda>d. d = (0, 0)) neighbourOffsets)"
  proof (rule filter_length_mono_set)
    fix d assume "d \<in> set neighbourOffsets" and "neighbourCounts s now 6 8 d"
    then show "d = (0, 0)"
      using others [of 5 7] others [of 5 8] others [of 5 9] others [of 6 7] others [of 6 9]
        others [of 7 7] others [of 7 8] others [of 7 9]
      by (auto simp: neighbourOffsets_def neighbourCounts_def)
  qed
  then show ?thesis by (simp add: neighbourOffsets_centre)
qed


lemma processTouch_accept_state:
  assumes "reachesGate s touch" "gateResult s touch = (True, s1)"
    and "isWaterPattern s1 now touch = (False, s2)" "\<not> isStaticTouch s2 touch"
  shows "processTouch s now touch =
           (True, (updateZones (updateHistory s2 touch) touch)
                    \<lparr>lastValidTouchTime := timestamp touch, lastValidTouch := touch,
                     validTouches := validTouches (updateZones (updateHistory s2 touch) touch) + 1\<rparr>)"
  using assms by (simp add: processTouch_tail reachesGate_def Let_def)

lemma updateZones_cell:
  assumes "unat (zoneIndex (tp_x touch) (screenWidth s)) = zx"
    and "unat (zoneIndex (tp_y touch) (screenHeight s)) = zy"
    and "zx < ZONE_GRID_SIZE" and "zy < ZONE_GRID_SIZE"
  shows "updateZones s touch =
      setZone s zx zy
        ((zoneAt s zx zy)\<lparr>active := True, activationTime := timestamp touch,
           lastTouchTime := timestamp touch,
           touchCount := touchCount (zoneAt s zx zy) + 1\<rparr>)"
  using assms by (simp add: updateZones_def Let_def)

lemma wfZones_setZone:
  assumes "wfZones s"
  shows "wfZones (setZone s i j z)"
proof (cases "i < length (zones s)")
  case True
  have "set ((zones s)[i := (zones s ! i)[j := z]]) \<subseteq> insert ((zones s ! i)[j := z]) (set (zones s))"
    by (rule set_update_subset_insert)
  moreover have "length ((zones s ! i)[j := z]) = ZONE_GRID_SIZE"
    using assms True by (simp add: wfZones_def)
  ultimately show ?thesis
    using assms by (auto simp: wfZones_def setZone_def)
next
  case False
  then show ?thesis
    using assms by (simp add: wfZones_def setZone_def list_update_beyond)
qed

lemma updateZones_frame:
  "touchHistory (updateZones s touch) = touchHistory s"
  "screenWidth (updateZones s touch) = screenWidth s"
  "screenHeight (updateZones s touch) = screenHeight s"
  "screenType (updateZones s touch) = screenType s"
  "config (updateZones s touch) = config s"
  "validTouches (updateZones s touch) = validTouches s"
  by (simp_all add: updateZones_def Let_def setZone_def)

lemma updateHistory_frame:
  "zones (updateHistory s touch) = zones s"
  "screenWidth (updateHistory s touch) = screenWidth s"
  "screenHeight (updateHistory s touch) = screenHeight s"
  "screenType (updateHistory s touch) = screenType s"
  "config (updateHistory s touch) = config s"
  "validTouches (updateHistory s touch) = validTouches s"
  "length (touchHistory (updateHistory s touch)) = length (touchHistory s)"
  by (simp_all add: updateHistory_def)

lemma tap_at_simps:
  "tp_x (tap_at k) = 100" "tp_y (tap_at k) = 100" "timestamp (tap_at k) = 600 * of_nat k"
  "pressure (tap_at k) = 128" "area (tap_at k) = 10" "valid (tap_at k)"
  by (simp_all add: tap_at_def)

lemma tap_step:
  assumes inv: "tapInv k s" and k: "k < 1000"
  shows "fst (processTouch_xy s (600 * of_nat k) 100 100) \<and>
         tapInv (Suc k) (snd (processTouch_xy s (600 * of_nat k) 100 100))"
proof -
  let ?t = "tap_at k"
  let ?now = "600 * of_nat k :: u32"
  from inv have dims: "screenWidth s = 320" "screenHeight s = 240"
    and cap: "screenType s = SCREEN_CAPACITIVE"
    and cfg: "config s = default_config SCREEN_CAPACITIVE"
    and wf: "wfZones s" and hl: "length (touchHistory s) = HISTORY_SIZE"
    and hist: "\<forall>h \<in> set (touchHistory s). valid h \<longrightarrow> (\<exists>j<k. timestamp h = 600 * of_nat j)"
    and others: "\<forall>i j. i < ZONE_GRID_SIZE \<and> j < ZONE_GRID_SIZE \<and> (i \<noteq> 6 \<or> j \<noteq> 8) \<longrightarrow>
             \<not> active (zoneAt s i j)"
    and k0: "k = 0 \<longrightarrow> \<not> active (zoneAt s 6 8)"
    and kp: "0 < k \<longrightarrow> activationTime (zoneAt s 6 8) = 600 * of_nat (k - 1)"
    and cnt: "touchCount (zoneAt s 6 8) = of_nat k"
    and vt: "validTouches s = of_nat k"
    by (simp_all add: tapInv_def)
  have rg: "reachesGate s ?t"
    by (simp add: reachesGate_def outOfBounds_def pressureTooLow_def inDebounceWindow_def
        tap_at_simps dims cap)
  have gate: "gateResult s ?t = (True, s)"
    by (simp add: gateResult_def cfg default_config_def)
  have zi: "unat (zoneIndex (tp_x ?t) (screenWidth s)) = 6"
    "unat (zoneIndex (tp_y ?t) (screenHeight s)) = 8"
    by (simp_all add: tap_at_simps dims zoneIndex_tap)
  have norapid: "\<not> (active (zoneAt s (unat (6 :: u8)) (unat (8 :: u8))) \<and>
              unat (?now - activationTime (zoneAt s (unat (6 :: u8)) (unat (8 :: u8)))) < 100)"
  proof (cases "k = 0")
    case True
    with k0 show ?thesis by simp
  next
    case False
    then have "activationTime (zoneAt s 6 8) = 600 * of_nat (k - 1)" using kp by simp
    moreover have "unat (?now - 600 * of_nat (k - 1)) = 600 * (k - (k - 1))"
      using k by (intro tap_elapsed) simp_all
    ultimately show ?thesis using False by simp
  qed
  have water: "isWaterPattern s ?now ?t = (False, s)"
    using tap_spread_count [OF inv, of ?now]
    by (simp add: isWaterPattern_def Let_def cfg default_config_def dims zoneIndex_tap
        tap_at_simps ZONE_GRID_SIZE_def checkZoneActivity_spread [OF norapid])
  have nomatch: "\<And>h. h \<in> set (touchHistory s) \<Longrightarrow> \<not> staticMatch s ?t h"
  proof
    fix h assume h: "h \<in> set (touchHistory s)" and m: "staticMatch s ?t h"
    then have "valid h" by (simp add: staticMatch_def)
    with hist h obtain j where j: "j < k" "timestamp h = 600 * of_nat j" by blast
    have "unat (?now - 600 * of_nat j) = 600 * (k - j)"
      using j(1) k by (intro tap_elapsed) simp_all
    with j(1) have "\<not> unat (?now - timestamp h) < 500"
      by (simp add: j(2))
    with m show False
      by (simp add: staticMatch_def cfg default_config_def tap_at_simps)
  qed
  then have "filter (staticMatch s ?t) (touchHistory s) = []"
    by (simp add: filter_empty_conv)
  then have static: "\<not> isStaticTouch s ?t"
    using hl by (simp add: isStaticTouch_count HISTORY_SIZE_def)
  let ?s3 = "updateHistory s ?t"
  let ?s4 = "updateZones ?s3 ?t"
  let ?s5 = "?s4\<lparr>lastValidTouchTime := timestamp ?t, lastValidTouch := ?t,
                 validTouches := validTouches ?s4 + 1\<rparr>"
  have res: "processTouch s ?now ?t = (True, ?s5)"
    using rg gate water static by (rule processTouch_accept_state)
  have s3z: "zones ?s3 = zones s" and s3d: "screenWidth ?s3 = 320" "screenHeight ?s3 = 240"
    by (simp_all add: updateHistory_frame dims)
  have zi3: "unat (zoneIndex (tp_x ?t) (screenWidth ?s3)) = 6"
    "unat (zoneIndex (tp_y ?t) (screenHeight ?s3)) = 8"
    by (simp_all add: tap_at_simps updateHistory_frame dims zoneIndex_tap)
  have s4: "?s4 = setZone ?s3 6 8
        ((zoneAt ?s3 6 8)\<lparr>active := True, activationTime := timestamp ?t,
           lastTouchTime := timestamp ?t,
           touchCount := touchCount (zoneAt ?s3 6 8) + 1\<rparr>)"
    by (rule updateZones_cell [OF zi3]) (simp_all add: ZONE_GRID_SIZE_def)
  have z3: "\<And>i j. zoneAt ?s3 i j = zoneAt s i j"
    by (simp add: zoneAt_def s3z)
  have wf3: "wfZones ?s3" using wf by (simp add: wfZones_def s3z)
  have len68: "6 < length (zones ?s3)" "8 < length (zones ?s3 ! 6)"
    using wfZones_index [OF wf3, of 6] by (simp_all add: ZONE_GRID_SIZE_def)
  have cell: "zoneAt ?s4 6 8 =
      \<lparr>active = True, activationTime = ?now, touchCount = of_nat k + 1, lastTouchTime = ?now\<rparr>"
    by (simp add: s4 zoneAt_setZone_same len68 z3 cnt tap_at_simps)
  have other4: "\<And>i j. i \<noteq> 6 \<or> j \<noteq> 8 \<Longrightarrow> zoneAt ?s4 i j = zoneAt s i j"
    by (simp add: s4 zoneAt_setZone_other z3)
  have wf4: "wfZones ?s4"
    unfolding s4 using wf3 by (rule wfZones_setZone)
  have h4: "touchHistory ?s4 = (touchHistory s)[unat (historyIndex s) := ?t]"
    by (simp add: updateZones_frame) (simp add: updateHistory_def)
  have hist4: "\<forall>h \<in> set (touchHistory ?s4). valid h \<longrightarrow> (\<exists>j<Suc k. timestamp h = 600 * of_nat j)"
  proof
    fix h assume "h \<in> set (touchHistory ?s4)"
    then have "h = ?t \<or> h \<in> set (touchHistory s)"
      using set_update_subset_insert [of "touchHistory s" "unat (historyIndex s)" ?t]
      by (auto simp: h4)
    then show "valid h \<longrightarrow> (\<exists>j<Suc k. timestamp h = 600 * of_nat j)"
    proof
      assume "h = ?t"
      then have "timestamp h = 600 * of_nat k" by (simp add: tap_at_simps)
      then show ?thesis by blast
    next
      assume "h \<in> set (touchHistory s)"
      with hist show ?thesis using less_Suc_eq by blast
    qed
  qed
  have frame4: "screenWidth ?s4 = 320" "screenHeight ?s4 = 240"
    "screenType ?s4 = SCREEN_CAPACITIVE" "config ?s4 = default_config SCREEN_CAPACITIVE"
    "validTouches ?s4 = of_nat k" "length (touchHistory ?s4) = HISTORY_SIZE"
    by (simp_all add: updateZones_frame updateHistory_frame dims cap cfg vt hl)
  have z5: "\<And>(s' :: WaterRejectionTouch) a b c i j.
      zoneAt (s'\<lparr>lastValidTouchTime := a, lastValidTouch := b, validTouches := c\<rparr>) i j
        = zoneAt s' i j"
    by (simp add: zoneAt_def)
  have o5: "\<forall>i j. i < ZONE_GRID_SIZE \<and> j < ZONE_GRID_SIZE \<and> (i \<noteq> 6 \<or> j \<noteq> 8) \<longrightarrow>
             \<not> active (zoneAt ?s5 i j)"
    using others other4 by (simp add: z5)
  have c5: "zoneAt ?s5 6 8 =
      \<lparr>active = True, activationTime = ?now, touchCount = of_nat (Suc k), lastTouchTime = ?now\<rparr>"
    using cell by (simp add: z5)
  have f5: "screenWidth ?s5 = 320" "screenHeight ?s5 = 240"
    "screenType ?s5 = SCREEN_CAPACITIVE" "config ?s5 = default_config SCREEN_CAPACITIVE"
    "validTouches ?s5 = of_nat (Suc k)" "length (touchHistory ?s5) = HISTORY_SIZE"
    using frame4 by simp_all
  have wf5: "wfZones ?s5"
    using wf4 by (simp add: wfZones_def)
  have hist5: "\<forall>h \<in> set (touchHistory ?s5). valid h \<longrightarrow> (\<exists>j<Suc k. timestamp h = 600 * of_nat j)"
    using hist4 by simp
  have "tapInv (Suc k) ?s5"
    unfolding tapInv_def
    by (intro conjI f5 wf5 hist5 o5) (simp_all add: c5)
  with res show ?thesis
    by (simp add: processTouch_xy_def tap_at_def)
qed


lemma tapInv_0: "tapInv 0 engine0"
proof -
  have z: "\<And>i j. i < 20 \<Longrightarrow> j < 20 \<Longrightarrow> zoneAt engine0 i j = zero_TouchZone"
    by (simp add: zoneAt_def engine0_def new_WaterRejectionTouch_def ZONE_GRID_SIZE_def)
  have h: "set (touchHistory engine0) = {zero_TouchPoint}"
    by (simp add: engine0_def new_WaterRejectionTouch_def HISTORY_SIZE_def)
  have w: "wfZones engine0" by code_simp
  show ?thesis
    unfolding tapInv_def
    by (intro conjI w)
       (simp_all add: z h ZONE_GRID_SIZE_def zero_TouchZone_def zero_TouchPoint_def,
        simp_all add: engine0_def new_WaterRejectionTouch_def)
qed

lemma tapRun_Suc:
  "tapRun (Suc n) = snd (processTouch_xy (tapRun n) (600 * of_nat n) 100 100)"
  by (simp add: tapRun_def)

lemma tapRun_inv: "n \<le> 1000 \<Longrightarrow> tapInv n (tapRun n)"
proof (induction n)
  case 0
  show ?case by (simp add: tapRun_def tapInv_0)
next
  case (Suc n)
  then have "tapInv n (tapRun n)" and "n < 1000" by simp_all
  then show ?case
    using tap_step [of n "tapRun n"] by (simp add: tapRun_Suc)
qed

lemma u8_succ:
  assumes "(c :: u8) \<noteq> 255"
  shows "unat (c + 1) = unat c + 1"
proof -
  have "unat c \<noteq> 255"
  proof
    assume "unat c = 255"
    then have "unat c = unat (255 :: u8)" by simp
    then have "c = 255" by (simp only: word_unat_eq_iff)
    with assms show False by simp
  qed
  moreover have "unat c < 256"
    using unsigned_less [of c] by simp
  ultimately have "unat c + unat (1 :: u8) < 2 ^ LENGTH(8)"
    by simp
  then show ?thesis
    by (simp add: unat_add_lem [THEN iffD1])
qed

text \<open>
  C10 (amended). When the sample maps to a cell of the grid, the zone update marks the
  cell active, sets its activation and last-touch times to the sample's timestamp, and sets
  its counter to the old counter plus one in 8-bit arithmetic, whatever the cell's previous
  activation time was: the elapsed time compared with 100 is the timestamp minus itself,
  so the branch that resets the counter to 1 is never taken. The counter therefore grows
  by one while it is below 255 and wraps from 255 to 0. Every other cell is unchanged.
\<close>

theorem updateZones_always_increments:
  assumes "wfZones s"
    and "zx = unat (zoneIndex (tp_x touch) (screenWidth s))"
    and "zy = unat (zoneIndex (tp_y touch) (screenHeight s))"
    and "zx < ZONE_GRID_SIZE" and "zy < ZONE_GRID_SIZE"
  shows "zoneAt (updateZones s touch) zx zy =
           \<lparr>active = True, activationTime = timestamp touch,
            touchCount = touchCount (zoneAt s zx zy) + 1, lastTouchTime = timestamp touch\<rparr> \<and>
         (touchCount (zoneAt s zx zy) \<noteq> 255 \<longrightarrow>
            unat (touchCount (zoneAt (updateZones s touch) zx zy))
              = unat (touchCount (zoneAt s zx zy)) + 1) \<and>
         (touchCount (zoneAt s zx zy) = 255 \<longrightarrow>
            touchCount (zoneAt (updateZones s touch) zx zy) = 0) \<and>
         (\<forall>i j. i \<noteq> zx \<or> j \<noteq> zy \<longrightarrow> zoneAt (updateZones s touch) i j = zoneAt s i j)"
proof -
  have len: "zx < length (zones s)" "zy < length (zones s ! zx)"
    using wfZones_index [OF assms(1) assms(4)] assms(5) by simp_all
  have upd: "updateZones s touch =
      setZone s zx zy
        ((zoneAt s zx zy)\<lparr>active := True, activationTime := timestamp touch,
           lastTouchTime := timestamp touch,
           touchCount := touchCount (zoneAt s zx zy) + 1\<rparr>)"
    using assms(4,5) unfolding assms(2,3)
    by (simp add: updateZones_def Let_def)
  have cell: "zoneAt (updateZones s touch) zx zy =
           \<lparr>active = True, activationTime = timestamp touch,
            touchCount = touchCount (zoneAt s zx zy) + 1, lastTouchTime = timestamp touch\<rparr>"
    by (simp add: upd zoneAt_setZone_same len)
  have grow: "touchCount (zoneAt s zx zy) \<noteq> 255 \<longrightarrow>
            unat (touchCount (zoneAt s zx zy) + 1) = unat (touchCount (zoneAt s zx zy)) + 1"
    by (simp add: u8_succ)
  have frame: "\<forall>i j. i \<noteq> zx \<or> j \<noteq> zy \<longrightarrow> zoneAt (updateZones s touch) i j = zoneAt s i j"
    by (simp add: upd zoneAt_setZone_other)
  from cell grow frame show ?thesis
    by simp
qed

theorem updateZones_always_increments_witness:
  "wfZones engine0 \<and>
   unat (zoneIndex (tp_x touch_cell_full) (screenWidth engine0)) = 6 \<and>
   unat (zoneIndex (tp_y touch_cell_full) (screenHeight engine0)) = 8 \<and>
   zoneAt (updateZones engine0 touch_cell_full) 6 8 =
     \<lparr>active = True, activationTime = 51200, touchCount = 1, lastTouchTime = 51200\<rparr> \<and>
   zoneAt (updateZones engine0 touch_cell_full) 6 9 = zoneAt engine0 6 9 \<and>
   wfZones engine_cell_full \<and>
   touchCount (zoneAt engine_cell_full 6 8) = 255 \<and>
   touchCount (zoneAt (updateZones engine_cell_full touch_cell_full) 6 8) = 0"
proof -
  have w: "wfZones engine0" by code_simp
  have x: "6 = unat (zoneIndex (tp_x touch_cell_full) (screenWidth engine0))" by code_simp
  have y: "8 = unat (zoneIndex (tp_y touch_cell_full) (screenHeight engine0))" by code_simp
  have w': "wfZones engine_cell_full" by code_simp
  have x': "6 = unat (zoneIndex (tp_x touch_cell_full) (screenWidth engine_cell_full))"
    by code_simp
  have y': "8 = unat (zoneIndex (tp_y touch_cell_full) (screenHeight engine_cell_full))"
    by code_simp
  have bx: "(6::nat) < ZONE_GRID_SIZE" and bry: "(8::nat) < ZONE_GRID_SIZE"
    by (simp_all add: ZONE_GRID_SIZE_def)
  have z: "touchCount (zoneAt engine0 6 8) = 0" by code_simp
  have z': "touchCount (zoneAt engine_cell_full 6 8) = 255" by code_simp
  have t: "timestamp touch_cell_full = 51200" by code_simp
  show ?thesis
    using w x y z t w' z' updateZones_always_increments [OF w x y bx bry]
      updateZones_always_increments [OF w' x' y' bx bry]
    by simp
qed

text \<open>
  C10 as stated says the counter never decreases outside the decay sweep. The counter
  is a \<open>uint8_t\<close>. After 255 calls of \<open>processTouch(100, 100)\<close>, 600 ms apart, all
  accepted, cell (6, 8) has counted 255; the 256th call is accepted as well and its zone
  update takes the counter to 0. No sweep takes part in the run.
\<close>

theorem updateZones_counter_wraps_counterexample:
  "validTouches (tapRun 255) = 255 \<and>
   touchCount (zoneAt (tapRun 255) 6 8) = 255 \<and>
   fst (processTouch_xy (tapRun 255) (600 * 255) 100 100) \<and>
   touchCount (zoneAt (tapRun 256) 6 8) = 0"
proof -
  have a: "tapInv 255 (tapRun 255)" by (rule tapRun_inv) simp
  have b: "tapInv 256 (tapRun 256)" by (rule tapRun_inv) simp
  have c: "fst (processTouch_xy (tapRun 255) (600 * of_nat 255) 100 100)"
    using tap_step [OF a] by simp
  from a b c show ?thesis
    by (simp add: tapInv_def)
qed

end
